theory Spec2Isabelle
  imports Complex_Main "HOL-Library.AList"
begin

section \<open>Shared data model (k8s.io/api objects, as far as the code reads them)\<close>

text \<open>
  Go errors are modelled by their message. A call that can fail returns
  \<open>error + 'a\<close> with \<open>Inl\<close> for the error.
\<close>

type_synonym error = string

text \<open>
  \<open>time.Time\<close> is an instant in nanoseconds, \<open>time.Duration\<close> is an int64 count of
  nanoseconds. \<open>Time.Sub\<close> saturates at the largest and smallest Duration.
\<close>

type_synonym Time = int
type_synonym Duration = int

definition maxDuration :: Duration where
  "maxDuration = 2 ^ 63 - 1"

definition minDuration :: Duration where
  "minDuration = - (2 ^ 63)"

definition time_Sub :: "Time \<Rightarrow> Time \<Rightarrow> Duration" where
  "time_Sub t u =
     (if t - u > maxDuration then maxDuration
      else if t - u < minDuration then minDuration
      else t - u)"

text \<open>\<open>time.Since(t)\<close> is \<open>time.Now().Sub(t)\<close>; the clock reading is the first argument.\<close>

definition time_Since :: "Time \<Rightarrow> Time \<Rightarrow> Duration" where
  "time_Since now t = time_Sub now t"

definition Second :: Duration where
  "Second = 1000000000"

definition Hour :: Duration where
  "Hour = 3600 * Second"

text \<open>\<open>v1.PodPhase\<close> is a string type with five named constants.\<close>

type_synonym PodPhase = string

definition PodPending :: PodPhase where "PodPending = ''Pending''"
definition PodRunning :: PodPhase where "PodRunning = ''Running''"
definition PodSucceeded :: PodPhase where "PodSucceeded = ''Succeeded''"
definition PodFailed :: PodPhase where "PodFailed = ''Failed''"

text \<open>
  The ways a pod of \<open>k8s.io/api/core/v1\<close> names a ConfigMap. A volume carries an optional
  ConfigMap source (\<open>volume.ConfigMap\<close>, a pointer) and an optional projected source
  (\<open>volume.Projected\<close>), whose projections each carry an optional ConfigMap; only names
  matter. An environment variable carries an optional \<open>ValueFrom\<close>, which carries an
  optional \<open>ConfigMapKeyRef\<close>. A container has its \<open>Env\<close> variables and its \<open>EnvFrom\<close>
  sources, each of which carries an optional \<open>ConfigMapRef\<close>. A pod has containers, init
  containers and ephemeral containers, which all carry \<open>Env\<close> and \<open>EnvFrom\<close>.
\<close>

record Volume =
  vol_ConfigMap :: "string option"
  vol_Projected :: "string option list option"

record EnvVarSource =
  src_ConfigMapKeyRef :: "string option"

record EnvVar =
  env_ValueFrom :: "EnvVarSource option"

record Container =
  ctr_Env :: "EnvVar list"
  ctr_EnvFrom :: "string option list"

record ContainerStatus =
  cs_RestartCount :: int
  cs_Waiting :: "string option"

record Pod =
  pod_Namespace :: string
  pod_Name :: string
  pod_CreationTimestamp :: Time
  pod_NodeName :: string
  pod_Volumes :: "Volume list"
  pod_Containers :: "Container list"
  pod_InitContainers :: "Container list"
  pod_EphemeralContainers :: "Container list"
  pod_Phase :: PodPhase
  pod_ContainerStatuses :: "ContainerStatus list"

record ConfigMap =
  cm_Namespace :: string
  cm_Name :: string
  cm_CreationTimestamp :: Time

section \<open>pkg/optimizer/optimizer.go\<close>

record Recommendation =
  rec_Type :: string
  rec_Description :: string
  rec_PotentialSaving :: rat

record OptimizationReport =
  PotentialSavings :: rat
  Recommendations :: "Recommendation list"

record CleanupRecommendation =
  ResourceType :: string
  Namespace :: string
  Name :: string
  Reason :: string
  Age :: Duration

subsection \<open>The cluster behind the clientset\<close>

text \<open>
  The objects the optimizer lists, with the usage metrics of the nodes (which the
  optimizer has access to through its metrics client).
\<close>

record NodeUsage =
  nu_Name :: string
  nu_AllocatableMilliCPU :: int
  nu_UsedMilliCPU :: int

record Cluster =
  cl_configMaps :: "ConfigMap list"
  cl_pods :: "Pod list"
  cl_nodes :: "NodeUsage list"

text \<open>
  How the API server answers: each list call and each delete call either fails with an
  error or succeeds. A successful delete removes the object from the cluster.
\<close>

record Faults =
  listConfigMapsErr :: "error option"
  listPodsErr :: "error option"
  deleteConfigMapErr :: "string \<Rightarrow> string \<Rightarrow> error option"
  deletePodErr :: "string \<Rightarrow> string \<Rightarrow> error option"

datatype ApiCall =
  DeleteConfigMap string string
| DeletePod string string

text \<open>The state a run threads through: the cluster, the delete calls issued, the log.\<close>

record World =
  cluster :: Cluster
  calls :: "ApiCall list"
  logs :: "string list"

definition ConfigMaps_List :: "Faults \<Rightarrow> World \<Rightarrow> error + ConfigMap list" where
  "ConfigMaps_List f w =
     (case listConfigMapsErr f of Some e \<Rightarrow> Inl e | None \<Rightarrow> Inr (cl_configMaps (cluster w)))"

definition Pods_List :: "Faults \<Rightarrow> World \<Rightarrow> error + Pod list" where
  "Pods_List f w =
     (case listPodsErr f of Some e \<Rightarrow> Inl e | None \<Rightarrow> Inr (cl_pods (cluster w)))"

definition ConfigMaps_Delete :: "Faults \<Rightarrow> string \<Rightarrow> string \<Rightarrow> World \<Rightarrow> error option \<times> World" where
  "ConfigMaps_Delete f ns n w =
     (let w1 = w\<lparr>calls := calls w @ [DeleteConfigMap ns n]\<rparr> in
      case deleteConfigMapErr f ns n of
        Some e \<Rightarrow> (Some e, w1)
      | None \<Rightarrow>
          (None, w1\<lparr>cluster := (cluster w1)\<lparr>cl_configMaps :=
             filter (\<lambda>cm. \<not> (cm_Namespace cm = ns \<and> cm_Name cm = n)) (cl_configMaps (cluster w1))\<rparr>\<rparr>))"

definition Pods_Delete :: "Faults \<Rightarrow> string \<Rightarrow> string \<Rightarrow> World \<Rightarrow> error option \<times> World" where
  "Pods_Delete f ns n w =
     (let w1 = w\<lparr>calls := calls w @ [DeletePod ns n]\<rparr> in
      case deletePodErr f ns n of
        Some e \<Rightarrow> (Some e, w1)
      | None \<Rightarrow>
          (None, w1\<lparr>cluster := (cluster w1)\<lparr>cl_pods :=
             filter (\<lambda>p. \<not> (pod_Namespace p = ns \<and> pod_Name p = n)) (cl_pods (cluster w1))\<rparr>\<rparr>))"

definition log_Printf :: "string \<Rightarrow> World \<Rightarrow> World" where
  "log_Printf line w = w\<lparr>logs := logs w @ [line]\<rparr>"

subsection \<open>GenerateOptimizationReport\<close>

definition GenerateOptimizationReport :: "Cluster \<Rightarrow> error + OptimizationReport" where
  "GenerateOptimizationReport c = Inr \<lparr>PotentialSavings = 0, Recommendations = []\<rparr>"

subsection \<open>CleanupUnusedResources\<close>

text \<open>\<open>fmt.Sprintf("%s/%s", ns, name)\<close>\<close>

definition key_of :: "string \<Rightarrow> string \<Rightarrow> string" where
  "key_of ns n = ns @ ''/'' @ n"

text \<open>A Go \<open>map[string]bool\<close>; reading a missing key gives \<open>false\<close>.\<close>

type_synonym boolmap = "string \<rightharpoonup> bool"

definition lookup :: "boolmap \<Rightarrow> string \<Rightarrow> bool" where
  "lookup m k = (case m k of None \<Rightarrow> False | Some b \<Rightarrow> b)"

fun markVolumes :: "string \<Rightarrow> Volume list \<Rightarrow> boolmap \<Rightarrow> boolmap" where
  "markVolumes ns [] m = m"
| "markVolumes ns (v # vs) m =
     (case vol_ConfigMap v of
        Some n \<Rightarrow> markVolumes ns vs (m(key_of ns n \<mapsto> True))
      | None \<Rightarrow> markVolumes ns vs m)"

fun markEnv :: "string \<Rightarrow> EnvVar list \<Rightarrow> boolmap \<Rightarrow> boolmap" where
  "markEnv ns [] m = m"
| "markEnv ns (e # es) m =
     (case env_ValueFrom e of
        Some s \<Rightarrow>
          (case src_ConfigMapKeyRef s of
             Some n \<Rightarrow> markEnv ns es (m(key_of ns n \<mapsto> True))
           | None \<Rightarrow> markEnv ns es m)
      | None \<Rightarrow> markEnv ns es m)"

fun markContainers :: "string \<Rightarrow> Container list \<Rightarrow> boolmap \<Rightarrow> boolmap" where
  "markContainers ns [] m = m"
| "markContainers ns (c # cs) m = markContainers ns cs (markEnv ns (ctr_Env c) m)"

fun markPods :: "Pod list \<Rightarrow> boolmap \<Rightarrow> boolmap" where
  "markPods [] m = m"
| "markPods (p # ps) m =
     markPods ps
       (markContainers (pod_Namespace p) (pod_Containers p)
          (markVolumes (pod_Namespace p) (pod_Volumes p) m))"

definition configMapRec :: "Time \<Rightarrow> ConfigMap \<Rightarrow> CleanupRecommendation" where
  "configMapRec now cm =
     \<lparr>ResourceType = ''ConfigMap'', Namespace = cm_Namespace cm, Name = cm_Name cm,
      Reason = ''Not referenced by any pod'',
      Age = time_Since now (cm_CreationTimestamp cm)\<rparr>"

definition podRec :: "Time \<Rightarrow> Pod \<Rightarrow> CleanupRecommendation" where
  "podRec now p =
     \<lparr>ResourceType = ''Pod'', Namespace = pod_Namespace p, Name = pod_Name p,
      Reason = ''Failed/Completed pod older than 7 days (status: '' @ pod_Phase p @ '')'',
      Age = time_Since now (pod_CreationTimestamp p)\<rparr>"

definition deleteConfigMapStep :: "Faults \<Rightarrow> ConfigMap \<Rightarrow> World \<Rightarrow> World" where
  "deleteConfigMapStep f cm w =
     (case ConfigMaps_Delete f (cm_Namespace cm) (cm_Name cm) w of
        (Some e, w1) \<Rightarrow>
          log_Printf (''Failed to delete configmap '' @ cm_Namespace cm @ ''/'' @ cm_Name cm
                      @ '': '' @ e) w1
      | (None, w1) \<Rightarrow>
          log_Printf (''Deleted unused configmap '' @ cm_Namespace cm @ ''/'' @ cm_Name cm) w1)"

definition deletePodStep :: "Faults \<Rightarrow> Pod \<Rightarrow> World \<Rightarrow> World" where
  "deletePodStep f p w =
     (case Pods_Delete f (pod_Namespace p) (pod_Name p) w of
        (Some e, w1) \<Rightarrow>
          log_Printf (''Failed to delete pod '' @ pod_Namespace p @ ''/'' @ pod_Name p
                      @ '': '' @ e) w1
      | (None, w1) \<Rightarrow>
          log_Printf (''Deleted old pod '' @ pod_Namespace p @ ''/'' @ pod_Name p) w1)"

text \<open>The loop over \<open>configMaps.Items\<close>; the accumulator is the local slice and the world.\<close>

fun configMapLoop ::
  "Faults \<Rightarrow> bool \<Rightarrow> Time \<Rightarrow> boolmap \<Rightarrow> ConfigMap list \<Rightarrow>
   CleanupRecommendation list \<times> World \<Rightarrow> CleanupRecommendation list \<times> World" where
  "configMapLoop f dryRun now inUse [] acc = acc"
| "configMapLoop f dryRun now inUse (cm # cms) (recs, w) =
     (if \<not> lookup inUse (key_of (cm_Namespace cm) (cm_Name cm)) then
        configMapLoop f dryRun now inUse cms
          (recs @ [configMapRec now cm],
           if \<not> dryRun then deleteConfigMapStep f cm w else w)
      else configMapLoop f dryRun now inUse cms (recs, w))"

text \<open>The loop over \<open>pods.Items\<close> that looks for old failed or succeeded pods.\<close>

fun podLoop ::
  "Faults \<Rightarrow> bool \<Rightarrow> Time \<Rightarrow> Pod list \<Rightarrow>
   CleanupRecommendation list \<times> World \<Rightarrow> CleanupRecommendation list \<times> World" where
  "podLoop f dryRun now [] acc = acc"
| "podLoop f dryRun now (p # ps) (recs, w) =
     (if pod_Phase p = PodFailed \<or> pod_Phase p = PodSucceeded then
        (if time_Since now (pod_CreationTimestamp p) > 7 * 24 * Hour then
           podLoop f dryRun now ps
             (recs @ [podRec now p],
              if \<not> dryRun then deletePodStep f p w else w)
         else podLoop f dryRun now ps (recs, w))
      else podLoop f dryRun now ps (recs, w))"

text \<open>
  A run gives the value the function returns, the final value of its local slice
  \<open>recommendations\<close>, and the world it leaves behind. A run is taken to be instantaneous:
  every \<open>time.Since\<close> of a run reads the same clock value \<open>now\<close>.
\<close>

record CleanupRun =
  returned :: "error + CleanupRecommendation list"
  recommendations :: "CleanupRecommendation list"
  world :: World

definition CleanupUnusedResources :: "Faults \<Rightarrow> bool \<Rightarrow> Time \<Rightarrow> World \<Rightarrow> CleanupRun" where
  "CleanupUnusedResources f dryRun now w =
     (case ConfigMaps_List f w of
        Inl e \<Rightarrow> \<lparr>returned = Inl (''failed to list configmaps: '' @ e),
                  recommendations = [], world = w\<rparr>
      | Inr configMaps \<Rightarrow>
          (case Pods_List f w of
             Inl e \<Rightarrow> \<lparr>returned = Inl (''failed to list pods: '' @ e),
                       recommendations = [], world = w\<rparr>
           | Inr pods \<Rightarrow>
               (let configMapsInUse = markPods pods Map.empty;
                    (recs1, w1) = configMapLoop f dryRun now configMapsInUse configMaps ([], w);
                    (recs2, w2) = podLoop f dryRun now pods (recs1, w1)
                in \<lparr>returned = Inr [], recommendations = recs2, world = w2\<rparr>)))"

section \<open>internal/kubernetes/client.go, package health\<close>

subsection \<open>Objects the health checks read\<close>

record NodeCondition =
  cond_Type :: string
  cond_Status :: string

definition ConditionTrue :: string where "ConditionTrue = ''True''"
definition NodeReady :: string where "NodeReady = ''Ready''"
definition NodeMemoryPressure :: string where "NodeMemoryPressure = ''MemoryPressure''"
definition NodeDiskPressure :: string where "NodeDiskPressure = ''DiskPressure''"
definition NodePIDPressure :: string where "NodePIDPressure = ''PIDPressure''"
definition NodeNetworkUnavailable :: string where
  "NodeNetworkUnavailable = ''NetworkUnavailable''"

text \<open>
  \<open>node_Allocatable\<close> holds, for each resource name, the \<open>MilliValue()\<close> of its quantity,
  in the order in which the \<open>range\<close> over the Go map visits them in the run at hand.

  A \<open>float64\<close> field holds the rational its value denotes. A \<open>float64\<close> operation (a
  conversion from \<open>int64\<close>, a sum, a quotient) rounds its exact result; the rounding is a
  parameter of the checks that compute with \<open>float64\<close>, so that nothing proved below
  depends on how it rounds.
\<close>

type_synonym rounding = "rat \<Rightarrow> rat"

record Node =
  node_Name :: string
  node_Conditions :: "NodeCondition list"
  node_Allocatable :: "(string \<times> int) list"

record Service =
  svc_Namespace :: string
  svc_Name :: string
  svc_Selector :: "(string \<times> string) list"

record Endpoints =
  ep_Subsets :: "string list list"

text \<open>\<open>Spec.Replicas\<close> is a \<open>*int32\<close>: \<open>None\<close> is the nil pointer.\<close>

record Deployment =
  dep_Name :: string
  dep_Replicas :: "int option"
  dep_ReadyReplicas :: int

subsection \<open>Status structs\<close>

text \<open>Go maps whose keys are enumerated later are association lists.\<close>

record NodeHealthStatus =
  TotalNodes :: int
  ReadyNodes :: int
  MemoryPressureNodes :: int
  DiskPressureNodes :: int
  PIDPressureNodes :: int
  NetworkUnavailableNodes :: int
  NodeConditions :: "(string \<times> string list) list"
  AverageLoad :: rat

record PodHealthStatus =
  TotalPods :: int
  RunningPods :: int
  PendingPods :: int
  SucceededPods :: int
  FailedPods :: int
  UnknownPods :: int
  RestartingPods :: int
  PodsPerNode :: "(string \<times> int) list"
  CrashLoopingPods :: "string list"

record ControlPlaneStatus =
  APIServerHealthy :: bool
  ControllerHealthy :: bool
  SchedulerHealthy :: bool
  EtcdHealthy :: bool
  CoreDNSHealthy :: bool
  OverallHealthy :: bool
  APIServerLatency :: rat

record NetworkStatus =
  CNIHealthy :: bool
  DNSResolutionOK :: bool
  ServiceEndpointsHealthy :: bool
  IngressHealthy :: bool
  NetworkPoliciesCount :: int

record ResourceUsageStatus =
  ClusterCPUUsage :: rat
  ClusterMemoryUsage :: rat
  ClusterStorageUsage :: rat
  HighCPUNodes :: "string list"
  HighMemoryNodes :: "string list"
  LowResourceNodes :: "string list"
  HighUsageNamespaces :: "string list"

record ComponentStatus =
  comp_Name :: string
  comp_Healthy :: bool
  comp_Message :: string
  comp_Version :: string

record DeploymentStatus =
  TotalDeployments :: int
  HealthyDeployments :: int
  ProgressingDeployments :: int
  FailedDeployments :: int

record ServiceStatus =
  TotalServices :: int
  ServicesWithEndpoints :: int
  ServicesWithoutEndpoints :: int

record NamespaceHealth =
  nh_PodStatus :: PodHealthStatus
  nh_DeploymentStatus :: DeploymentStatus
  nh_ServiceStatus :: ServiceStatus
  nh_ResourceUsage :: ResourceUsageStatus
  nh_HealthScore :: int

record HealthIssue =
  issue_Severity :: string
  issue_Resource :: string
  issue_Namespace :: string
  issue_Name :: string
  issue_Message :: string
  issue_Timestamp :: Time
  issue_Suggestion :: string

record ClusterHealth =
  Timestamp :: Time
  NodeStatus :: NodeHealthStatus
  PodStatus :: PodHealthStatus
  ControlPlaneStatus :: ControlPlaneStatus
  NetworkStatus :: NetworkStatus
  ResourceUsage :: ResourceUsageStatus
  ComponentStatuses :: "ComponentStatus list"
  NamespaceHealth :: "(string \<times> NamespaceHealth) list"
  HealthScore :: int
  Issues :: "HealthIssue list"

text \<open>The zero values Go gives the fields of a fresh \<open>ClusterHealth\<close>.\<close>

definition zeroNodeHealthStatus :: NodeHealthStatus where
  "zeroNodeHealthStatus =
     \<lparr>TotalNodes = 0, ReadyNodes = 0, MemoryPressureNodes = 0, DiskPressureNodes = 0,
      PIDPressureNodes = 0, NetworkUnavailableNodes = 0, NodeConditions = [], AverageLoad = 0\<rparr>"

definition zeroPodHealthStatus :: PodHealthStatus where
  "zeroPodHealthStatus =
     \<lparr>TotalPods = 0, RunningPods = 0, PendingPods = 0, SucceededPods = 0, FailedPods = 0,
      UnknownPods = 0, RestartingPods = 0, PodsPerNode = [], CrashLoopingPods = []\<rparr>"

definition zeroControlPlaneStatus :: ControlPlaneStatus where
  "zeroControlPlaneStatus =
     \<lparr>APIServerHealthy = False, ControllerHealthy = False, SchedulerHealthy = False,
      EtcdHealthy = False, CoreDNSHealthy = False, OverallHealthy = False,
      APIServerLatency = 0\<rparr>"

definition zeroNetworkStatus :: NetworkStatus where
  "zeroNetworkStatus =
     \<lparr>CNIHealthy = False, DNSResolutionOK = False, ServiceEndpointsHealthy = False,
      IngressHealthy = False, NetworkPoliciesCount = 0\<rparr>"

definition zeroResourceUsageStatus :: ResourceUsageStatus where
  "zeroResourceUsageStatus =
     \<lparr>ClusterCPUUsage = 0, ClusterMemoryUsage = 0, ClusterStorageUsage = 0,
      HighCPUNodes = [], HighMemoryNodes = [], LowResourceNodes = [],
      HighUsageNamespaces = []\<rparr>"

subsection \<open>What the API server answers to the health checks\<close>

text \<open>
  One field for each call the checks make; \<open>api_ProbeDuration\<close> is the time the
  one-namespace probe of the control-plane check took.
\<close>

record Api =
  api_Nodes :: "error + Node list"
  api_Pods :: "error + Pod list"
  api_ProbeErr :: "error option"
  api_ProbeDuration :: Duration
  api_KubeSystemPods :: "error + Pod list"
  api_CNIPods :: "error + Pod list"
  api_KubeDNSPods :: "error + Pod list"
  api_Services :: "error + Service list"
  api_Endpoints :: "string \<Rightarrow> string \<Rightarrow> error + Endpoints"
  api_IngressDeployments :: "error + Deployment list"
  api_NetworkPolicies :: "error + string list"

text \<open>
  The functions \<open>GetClusterHealth\<close> calls that are not part of the sources at hand are
  parameters of the model: each is given by what it does to the struct it is handed and by
  the error it returns.
\<close>

record Missing =
  m_checkResourceUsage :: "ResourceUsageStatus \<Rightarrow> error option \<times> ResourceUsageStatus"
  m_checkComponentStatuses :: "ComponentStatus list \<Rightarrow> error option \<times> ComponentStatus list"
  m_checkNamespaceHealth :: "ClusterHealth \<Rightarrow> error option \<times> ClusterHealth"
  m_identifyHealthIssues :: "ClusterHealth \<Rightarrow> ClusterHealth"
  m_calculateHealthScore :: "ClusterHealth \<Rightarrow> int"

text \<open>A call either returns or panics.\<close>

datatype 'a exec = Panicked | Returned 'a

subsection \<open>checkNodeHealth\<close>

fun conditionLoop ::
  "NodeCondition list \<Rightarrow> bool \<times> string list \<times> NodeHealthStatus \<Rightarrow>
   bool \<times> string list \<times> NodeHealthStatus" where
  "conditionLoop [] acc = acc"
| "conditionLoop (c # cs) (isReady, nodeConditions, st) =
     (if cond_Status c = ConditionTrue then
        (if cond_Type c = NodeReady then
           conditionLoop cs (True, nodeConditions @ [cond_Type c],
                             st\<lparr>ReadyNodes := ReadyNodes st + 1\<rparr>)
         else if cond_Type c = NodeMemoryPressure then
           conditionLoop cs (isReady, nodeConditions @ [cond_Type c],
                             st\<lparr>MemoryPressureNodes := MemoryPressureNodes st + 1\<rparr>)
         else if cond_Type c = NodeDiskPressure then
           conditionLoop cs (isReady, nodeConditions @ [cond_Type c],
                             st\<lparr>DiskPressureNodes := DiskPressureNodes st + 1\<rparr>)
         else if cond_Type c = NodePIDPressure then
           conditionLoop cs (isReady, nodeConditions @ [cond_Type c],
                             st\<lparr>PIDPressureNodes := PIDPressureNodes st + 1\<rparr>)
         else if cond_Type c = NodeNetworkUnavailable then
           conditionLoop cs (isReady, nodeConditions @ [cond_Type c],
                             st\<lparr>NetworkUnavailableNodes := NetworkUnavailableNodes st + 1\<rparr>)
         else conditionLoop cs (isReady, nodeConditions @ [cond_Type c], st))
      else conditionLoop cs (isReady, nodeConditions, st))"

text \<open>\<open>totalLoad += float64(metric.MilliValue()) / 1000\<close>, with its three roundings.\<close>

fun allocatableLoop :: "rounding \<Rightarrow> (string \<times> int) list \<Rightarrow> rat \<Rightarrow> rat" where
  "allocatableLoop float64 [] totalLoad = totalLoad"
| "allocatableLoop float64 ((name, milli) # rest) totalLoad =
     allocatableLoop float64 rest
       (float64 (totalLoad + float64 (float64 (of_int milli) / 1000)))"

fun nodeLoop ::
  "rounding \<Rightarrow> Node list \<Rightarrow> rat \<times> NodeHealthStatus \<Rightarrow> rat \<times> NodeHealthStatus" where
  "nodeLoop float64 [] acc = acc"
| "nodeLoop float64 (node # nodes) (totalLoad, st) =
     (case conditionLoop (node_Conditions node) (False, [], st) of
        (isReady, nodeConditions, st1) \<Rightarrow>
          nodeLoop float64 nodes
            (allocatableLoop float64 (node_Allocatable node) totalLoad,
             st1\<lparr>NodeConditions :=
                   AList.update (node_Name node) nodeConditions (NodeConditions st1)\<rparr>))"

definition checkNodeHealth ::
  "rounding \<Rightarrow> Api \<Rightarrow> NodeHealthStatus \<Rightarrow> error option \<times> NodeHealthStatus" where
  "checkNodeHealth float64 api status =
     (case api_Nodes api of
        Inl e \<Rightarrow> (Some (''failed to list nodes: '' @ e), status)
      | Inr nodes \<Rightarrow>
          (case nodeLoop float64 nodes
                  (0, status\<lparr>TotalNodes := int (length nodes), NodeConditions := []\<rparr>) of
             (totalLoad, st) \<Rightarrow>
               (None,
                if TotalNodes st > 0
                then st\<lparr>AverageLoad :=
                         float64 (totalLoad / float64 (of_int (TotalNodes st)))\<rparr>
                else st)))"

subsection \<open>checkPodHealth\<close>

text \<open>The loop over \<open>pod.Status.ContainerStatuses\<close>; \<open>podKey\<close> is \<open>namespace/name\<close>.\<close>

fun containerStatusLoop :: "string \<Rightarrow> ContainerStatus list \<Rightarrow> PodHealthStatus \<Rightarrow> PodHealthStatus" where
  "containerStatusLoop podKey [] st = st"
| "containerStatusLoop podKey (cs # rest) st =
     (let st1 = (if cs_RestartCount cs > 5
                 then st\<lparr>RestartingPods := RestartingPods st + 1\<rparr> else st);
          st2 = (if cs_Waiting cs = Some ''CrashLoopBackOff''
                 then st1\<lparr>CrashLoopingPods := CrashLoopingPods st1 @ [podKey]\<rparr> else st1)
      in containerStatusLoop podKey rest st2)"

definition countPodOnNode :: "string \<Rightarrow> (string \<times> int) list \<Rightarrow> (string \<times> int) list" where
  "countPodOnNode nodeName m =
     (if nodeName \<noteq> [] then
        (case map_of m nodeName of
           None \<Rightarrow> AList.update nodeName 1 (AList.update nodeName 0 m)
         | Some n \<Rightarrow> AList.update nodeName (n + 1) m)
      else m)"

definition countPhase :: "PodPhase \<Rightarrow> PodHealthStatus \<Rightarrow> PodHealthStatus" where
  "countPhase phase st =
     (if phase = PodRunning then st\<lparr>RunningPods := RunningPods st + 1\<rparr>
      else if phase = PodPending then st\<lparr>PendingPods := PendingPods st + 1\<rparr>
      else if phase = PodSucceeded then st\<lparr>SucceededPods := SucceededPods st + 1\<rparr>
      else if phase = PodFailed then st\<lparr>FailedPods := FailedPods st + 1\<rparr>
      else st\<lparr>UnknownPods := UnknownPods st + 1\<rparr>)"

fun podHealthLoop :: "Pod list \<Rightarrow> PodHealthStatus \<Rightarrow> PodHealthStatus" where
  "podHealthLoop [] st = st"
| "podHealthLoop (pod # pods) st =
     (let st1 = st\<lparr>PodsPerNode := countPodOnNode (pod_NodeName pod) (PodsPerNode st)\<rparr>;
          st2 = countPhase (pod_Phase pod) st1;
          st3 = containerStatusLoop (pod_Namespace pod @ ''/'' @ pod_Name pod)
                  (pod_ContainerStatuses pod) st2
      in podHealthLoop pods st3)"

definition checkPodHealth :: "Api \<Rightarrow> PodHealthStatus \<Rightarrow> error option \<times> PodHealthStatus" where
  "checkPodHealth api status =
     (case api_Pods api of
        Inl e \<Rightarrow> (Some (''failed to list pods: '' @ e), status)
      | Inr pods \<Rightarrow>
          (None,
           podHealthLoop pods
             (status\<lparr>TotalPods := int (length pods), PodsPerNode := [],
                     CrashLoopingPods := []\<rparr>)))"

subsection \<open>checkControlPlaneHealth\<close>

fun hasPrefix :: "string \<Rightarrow> string \<Rightarrow> bool" where
  "hasPrefix [] s = True"
| "hasPrefix (p # ps) [] = False"
| "hasPrefix (p # ps) (c # cs) = (p = c \<and> hasPrefix ps cs)"

fun strings_Contains :: "string \<Rightarrow> string \<Rightarrow> bool" where
  "strings_Contains [] substr = (substr = [])"
| "strings_Contains (c # cs) substr = (hasPrefix substr (c # cs) \<or> strings_Contains cs substr)"

text \<open>\<open>Duration.Milliseconds\<close>: integer division that truncates toward zero.\<close>

definition Milliseconds :: "Duration \<Rightarrow> int" where
  "Milliseconds d = (if d < 0 then - ((- d) div 1000000) else d div 1000000)"

fun componentLoop :: "Pod list \<Rightarrow> ControlPlaneStatus \<Rightarrow> ControlPlaneStatus" where
  "componentLoop [] st = st"
| "componentLoop (pod # pods) st =
     (let st1 = (if strings_Contains (pod_Name pod) ''kube-controller-manager'' \<and>
                    pod_Phase pod \<noteq> PodRunning
                 then st\<lparr>ControllerHealthy := False\<rparr> else st);
          st2 = (if strings_Contains (pod_Name pod) ''kube-scheduler'' \<and>
                    pod_Phase pod \<noteq> PodRunning
                 then st1\<lparr>SchedulerHealthy := False\<rparr> else st1);
          st3 = (if strings_Contains (pod_Name pod) ''etcd'' \<and> pod_Phase pod \<noteq> PodRunning
                 then st2\<lparr>EtcdHealthy := False\<rparr> else st2);
          st4 = (if strings_Contains (pod_Name pod) ''coredns'' \<and> pod_Phase pod \<noteq> PodRunning
                 then st3\<lparr>CoreDNSHealthy := False\<rparr> else st3)
      in componentLoop pods st4)"

definition checkControlPlaneHealth ::
  "rounding \<Rightarrow> Api \<Rightarrow> ControlPlaneStatus \<Rightarrow> error option \<times> ControlPlaneStatus" where
  "checkControlPlaneHealth float64 api status =
     (let st0 = status\<lparr>APIServerLatency :=
                         float64 (of_int (Milliseconds (api_ProbeDuration api))),
                       APIServerHealthy :=
                         (api_ProbeErr api = None \<and> api_ProbeDuration api < 1 * Second)\<rparr>
      in case api_KubeSystemPods api of
           Inl e \<Rightarrow> (Some (''failed to list kube-system pods: '' @ e), st0)
         | Inr pods \<Rightarrow>
             (let st1 = componentLoop pods
                          (st0\<lparr>ControllerHealthy := True, SchedulerHealthy := True,
                               EtcdHealthy := True, CoreDNSHealthy := True\<rparr>)
              in (None,
                  st1\<lparr>OverallHealthy :=
                        (APIServerHealthy st1 \<and> ControllerHealthy st1 \<and> SchedulerHealthy st1 \<and>
                         EtcdHealthy st1 \<and> CoreDNSHealthy st1)\<rparr>)))"

subsection \<open>checkNetworkHealth\<close>

text \<open>\<open>healthy = true; for pod: if phase differs from Running then healthy = false; break\<close>\<close>

fun allRunning :: "Pod list \<Rightarrow> bool" where
  "allRunning [] = True"
| "allRunning (pod # pods) = (if pod_Phase pod \<noteq> PodRunning then False else allRunning pods)"

fun endpointsLoop :: "Api \<Rightarrow> Service list \<Rightarrow> bool" where
  "endpointsLoop api [] = True"
| "endpointsLoop api (svc # svcs) =
     (if length (svc_Selector svc) = 0 then endpointsLoop api svcs
      else (case api_Endpoints api (svc_Namespace svc) (svc_Name svc) of
              Inl e \<Rightarrow> False
            | Inr endpoints \<Rightarrow>
                if length (ep_Subsets endpoints) = 0 then False else endpointsLoop api svcs))"

text \<open>
  The loop over the ingress-controller deployments. \<open>*ingress.Spec.Replicas\<close> panics on a
  nil pointer; the loop leaves at the first deployment with too few ready replicas.
\<close>

fun ingressLoop :: "Deployment list \<Rightarrow> bool exec" where
  "ingressLoop [] = Returned True"
| "ingressLoop (ingress # rest) =
     (case dep_Replicas ingress of
        None \<Rightarrow> Panicked
      | Some replicas \<Rightarrow>
          if dep_ReadyReplicas ingress < replicas then Returned False else ingressLoop rest)"

definition checkCNI :: "Api \<Rightarrow> NetworkStatus \<times> string list \<Rightarrow> NetworkStatus \<times> string list" where
  "checkCNI api = (\<lambda>(st, lg).
     case api_CNIPods api of
       Inl e \<Rightarrow> (st\<lparr>CNIHealthy := False\<rparr>, lg @ [''Failed to check CNI pods: '' @ e])
     | Inr cniPods \<Rightarrow> (st\<lparr>CNIHealthy := allRunning cniPods\<rparr>, lg))"

definition checkDNS :: "Api \<Rightarrow> NetworkStatus \<times> string list \<Rightarrow> NetworkStatus \<times> string list" where
  "checkDNS api = (\<lambda>(st, lg).
     case api_KubeDNSPods api of
       Inl e \<Rightarrow> (st\<lparr>DNSResolutionOK := False\<rparr>, lg @ [''Failed to check CoreDNS pods: '' @ e])
     | Inr coredns \<Rightarrow> (st\<lparr>DNSResolutionOK := allRunning coredns\<rparr>, lg))"

definition checkServiceEndpoints ::
  "Api \<Rightarrow> NetworkStatus \<times> string list \<Rightarrow> NetworkStatus \<times> string list" where
  "checkServiceEndpoints api = (\<lambda>(st, lg).
     case api_Services api of
       Inl e \<Rightarrow> (st\<lparr>ServiceEndpointsHealthy := False\<rparr>, lg @ [''Failed to list services: '' @ e])
     | Inr services \<Rightarrow> (st\<lparr>ServiceEndpointsHealthy := endpointsLoop api services\<rparr>, lg))"

definition checkIngress ::
  "Api \<Rightarrow> NetworkStatus \<times> string list \<Rightarrow> (NetworkStatus \<times> string list) exec" where
  "checkIngress api = (\<lambda>(st, lg).
     case api_IngressDeployments api of
       Inl e \<Rightarrow>
         Returned (st\<lparr>IngressHealthy := False\<rparr>,
                   lg @ [''Failed to check ingress controllers: '' @ e])
     | Inr ingressControllers \<Rightarrow>
         if length ingressControllers = 0 then Returned (st\<lparr>IngressHealthy := True\<rparr>, lg)
         else (case ingressLoop ingressControllers of
                 Panicked \<Rightarrow> Panicked
               | Returned healthy \<Rightarrow> Returned (st\<lparr>IngressHealthy := healthy\<rparr>, lg)))"

definition countNetworkPolicies ::
  "Api \<Rightarrow> NetworkStatus \<times> string list \<Rightarrow> NetworkStatus \<times> string list" where
  "countNetworkPolicies api = (\<lambda>(st, lg).
     case api_NetworkPolicies api of
       Inl e \<Rightarrow> (st, lg @ [''Failed to count network policies: '' @ e])
     | Inr netpols \<Rightarrow> (st\<lparr>NetworkPoliciesCount := int (length netpols)\<rparr>, lg))"

text \<open>The result is the returned error (always nil), the status and the log.\<close>

definition checkNetworkHealth ::
  "Api \<Rightarrow> NetworkStatus \<Rightarrow> string list \<Rightarrow> (error option \<times> NetworkStatus \<times> string list) exec" where
  "checkNetworkHealth api status lg =
     (case checkIngress api (checkServiceEndpoints api (checkDNS api (checkCNI api (status, lg)))) of
        Panicked \<Rightarrow> Panicked
      | Returned s \<Rightarrow>
          (case countNetworkPolicies api s of (st, lg') \<Rightarrow> Returned (None, st, lg')))"

subsection \<open>GetClusterHealth\<close>

definition newClusterHealth :: "Time \<Rightarrow> ClusterHealth" where
  "newClusterHealth now =
     \<lparr>Timestamp = now, NodeStatus = zeroNodeHealthStatus, PodStatus = zeroPodHealthStatus,
      ControlPlaneStatus = zeroControlPlaneStatus, NetworkStatus = zeroNetworkStatus,
      ResourceUsage = zeroResourceUsageStatus, ComponentStatuses = [],
      NamespaceHealth = [], HealthScore = 0, Issues = []\<rparr>"

definition logIfErr :: "string \<Rightarrow> error option \<Rightarrow> string list \<Rightarrow> string list" where
  "logIfErr what err lg = (case err of None \<Rightarrow> lg | Some e \<Rightarrow> lg @ [what @ e])"

text \<open>The part of \<open>GetClusterHealth\<close> after the network check.\<close>

definition finishClusterHealth ::
  "Missing \<Rightarrow> ClusterHealth \<Rightarrow> string list \<Rightarrow> ClusterHealth \<times> string list" where
  "finishClusterHealth m health lg =
     (case m_checkResourceUsage m (ResourceUsage health) of
        (err1, ru) \<Rightarrow>
          (case m_checkComponentStatuses m (ComponentStatuses health) of
             (err2, comps) \<Rightarrow>
               (case m_checkNamespaceHealth m
                       (health\<lparr>ResourceUsage := ru, ComponentStatuses := comps\<rparr>) of
                  (err3, h3) \<Rightarrow>
                    (let h4 = m_identifyHealthIssues m h3
                     in (h4\<lparr>HealthScore := m_calculateHealthScore m h4\<rparr>,
                         logIfErr ''Namespace health check failed: '' err3
                           (logIfErr ''Component status check failed: '' err2
                              (logIfErr ''Resource usage check failed: '' err1 lg)))))))"

definition GetClusterHealth ::
  "rounding \<Rightarrow> Missing \<Rightarrow> Api \<Rightarrow> Time \<Rightarrow> string list \<Rightarrow>
   ((error + ClusterHealth) \<times> string list) exec" where
  "GetClusterHealth float64 m api now lg =
     (let health = newClusterHealth now in
      case checkNodeHealth float64 api (NodeStatus health) of
        (Some e, ns) \<Rightarrow> Returned (Inl (''node health check failed: '' @ e), lg)
      | (None, ns) \<Rightarrow>
          (case checkPodHealth api (PodStatus health) of
             (Some e, ps) \<Rightarrow> Returned (Inl (''pod health check failed: '' @ e), lg)
           | (None, ps) \<Rightarrow>
               (case checkControlPlaneHealth float64 api (ControlPlaneStatus health) of
                  (err, cp) \<Rightarrow>
                    (case checkNetworkHealth api (NetworkStatus health)
                            (logIfErr ''Control plane health check failed: '' err lg) of
                       Panicked \<Rightarrow> Panicked
                     | Returned (nerr, nw, lg1) \<Rightarrow>
                         (case finishClusterHealth m
                                 (health\<lparr>NodeStatus := ns, PodStatus := ps,
                                         ControlPlaneStatus := cp, NetworkStatus := nw\<rparr>)
                                 (logIfErr ''Network health check failed: '' nerr lg1) of
                            (h, lg2) \<Rightarrow> Returned (Inr h, lg2))))))"



text \<open>The ingress step of the network check reaches a nil \<open>Replicas\<close>.\<close>

definition ingressPanics :: "Api \<Rightarrow> bool" where
  "ingressPanics api =
     (case api_IngressDeployments api of
        Inl e \<Rightarrow> False
      | Inr ds \<Rightarrow> ingressLoop ds = Panicked)"


section \<open>The properties, in the words of the specification\<close>

subsection \<open>Cleanup analysis\<close>

text \<open>The ConfigMap an environment variable takes its value from, if any.\<close>

definition envConfigMapRef :: "EnvVar \<Rightarrow> string option" where
  "envConfigMapRef e =
     (case env_ValueFrom e of None \<Rightarrow> None | Some s \<Rightarrow> src_ConfigMapKeyRef s)"

text \<open>
  A volume takes its content from a ConfigMap: as its ConfigMap source or as one of the
  projections of its projected source.
\<close>

definition volumeReferences :: "Volume \<Rightarrow> string \<Rightarrow> bool" where
  "volumeReferences v n \<longleftrightarrow>
     vol_ConfigMap v = Some n \<or>
     (case vol_Projected v of None \<Rightarrow> False | Some sources \<Rightarrow> Some n \<in> set sources)"

text \<open>
  A container takes environment variables from a ConfigMap: one variable from one of its
  keys (\<open>valueFrom.configMapKeyRef\<close>) or all of them at once (\<open>envFrom.configMapRef\<close>).
\<close>

definition containerReferences :: "Container \<Rightarrow> string \<Rightarrow> bool" where
  "containerReferences c n \<longleftrightarrow>
     (\<exists>e \<in> set (ctr_Env c). envConfigMapRef e = Some n) \<or> Some n \<in> set (ctr_EnvFrom c)"

text \<open>
  A pod references a ConfigMap through a volume or an environment-variable source, in any
  of its containers, init containers and ephemeral containers.
\<close>

definition referencesConfigMap :: "Pod \<Rightarrow> string \<Rightarrow> bool" where
  "referencesConfigMap p n \<longleftrightarrow>
     (\<exists>v \<in> set (pod_Volumes p). volumeReferences v n) \<or>
     (\<exists>c \<in> set (pod_Containers p @ pod_InitContainers p @ pod_EphemeralContainers p).
        containerReferences c n)"

text \<open>
  The references \<open>CleanupUnusedResources\<close> looks at: the ConfigMap source of a volume and
  the \<open>valueFrom.configMapKeyRef\<close> of a variable of a container in \<open>Spec.Containers\<close>.
\<close>

definition readsReference :: "Pod \<Rightarrow> string \<Rightarrow> bool" where
  "readsReference p n \<longleftrightarrow>
     (\<exists>v \<in> set (pod_Volumes p). vol_ConfigMap v = Some n) \<or>
     (\<exists>c \<in> set (pod_Containers p). \<exists>e \<in> set (ctr_Env c). envConfigMapRef e = Some n)"

text \<open>A ConfigMap is unused iff no pod in its namespace references it.\<close>

definition unusedConfigMap :: "Pod list \<Rightarrow> ConfigMap \<Rightarrow> bool" where
  "unusedConfigMap pods cm \<longleftrightarrow>
     \<not> (\<exists>p \<in> set pods. pod_Namespace p = cm_Namespace cm \<and> referencesConfigMap p (cm_Name cm))"

text \<open>
  A pod is stale iff its phase is Failed or Succeeded and it is older than seven days
  (in nanoseconds).
\<close>

definition stalePod :: "Time \<Rightarrow> Pod \<Rightarrow> bool" where
  "stalePod now p \<longleftrightarrow>
     (pod_Phase p = ''Failed'' \<or> pod_Phase p = ''Succeeded'') \<and>
     now - pod_CreationTimestamp p > 7 * 24 * 3600 * 1000000000"

text \<open>
  Kubernetes namespace names are DNS labels: they never contain a slash, which is what
  makes the \<open>namespace/name\<close> key unambiguous.
\<close>

definition validNamespace :: "string \<Rightarrow> bool" where
  "validNamespace ns \<longleftrightarrow> CHR ''/'' \<notin> set ns"

text \<open>
  The flagged resources of a cluster, from its lists alone: a ConfigMap is flagged when
  its \<open>namespace/name\<close> key is not in the in-use map built from the pods, a pod when it
  is stale.
\<close>

definition keyInUse :: "Pod list \<Rightarrow> ConfigMap \<Rightarrow> bool" where
  "keyInUse pods cm = lookup (markPods pods Map.empty) (key_of (cm_Namespace cm) (cm_Name cm))"

definition flaggedConfigMaps :: "Cluster \<Rightarrow> ConfigMap list" where
  "flaggedConfigMaps c = filter (\<lambda>cm. \<not> keyInUse (cl_pods c) cm) (cl_configMaps c)"

definition flaggedPods :: "Time \<Rightarrow> Cluster \<Rightarrow> Pod list" where
  "flaggedPods now c = filter (stalePod now) (cl_pods c)"

subsection \<open>The composite health score\<close>

text \<open>
  Modelled from the spec: \<open>calculateHealthScore\<close> is called by \<open>GetClusterHealth\<close> but its
  body is not in the sources at hand. The definitions below follow the table of
  sub-scores and the weights of section 4.1: a node carries pressure when one of the
  three pressure conditions is true for it.
\<close>

definition hasPressure :: "string list \<Rightarrow> bool" where
  "hasPressure conds \<longleftrightarrow>
     NodeMemoryPressure \<in> set conds \<or> NodeDiskPressure \<in> set conds \<or>
     NodePIDPressure \<in> set conds"

definition pressureNodeCount :: "NodeHealthStatus \<Rightarrow> int" where
  "pressureNodeCount st = int (length (filter (\<lambda>e. hasPressure (snd e)) (NodeConditions st)))"

text \<open>
  Modelled from the spec: node sub-score, \<open>100 * ready / total\<close> less 5 per node under
  pressure, not below 0, and 100 when there are no nodes.
\<close>

definition nodeSubScore :: "NodeHealthStatus \<Rightarrow> rat" where
  "nodeSubScore st =
     (if TotalNodes st = 0 then 100
      else max 0 (100 * of_int (ReadyNodes st) / of_int (TotalNodes st)
                  - 5 * of_int (pressureNodeCount st)))"

text \<open>
  Modelled from the spec: pod sub-score, \<open>100 * running / total\<close> less 2 per crash-looping
  pod and less 1 per restarting pod, not below 0, and 100 when there are no pods.
\<close>

definition podSubScore :: "PodHealthStatus \<Rightarrow> rat" where
  "podSubScore st =
     (if TotalPods st = 0 then 100
      else max 0 (100 * of_int (RunningPods st) / of_int (TotalPods st)
                  - 2 * of_int (int (length (remdups (CrashLoopingPods st))))
                  - of_int (RestartingPods st)))"

definition countTrue :: "bool list \<Rightarrow> int" where
  "countTrue bs = int (length (filter (\<lambda>b. b) bs))"

text \<open>
  Modelled from the spec: control-plane sub-score, 100 when all five components are
  healthy, otherwise \<open>100 * healthy / 5\<close>, less \<open>min 20 (latency / 50)\<close> when the API
  server is slow (a probe of a second or more).
\<close>

definition controlPlaneSubScore :: "ControlPlaneStatus \<Rightarrow> rat" where
  "controlPlaneSubScore st =
     (let healthy = countTrue [APIServerHealthy st, ControllerHealthy st, SchedulerHealthy st,
                               EtcdHealthy st, CoreDNSHealthy st]
      in if healthy = 5 then 100
         else 100 * of_int healthy / 5
              - (if \<not> APIServerHealthy st \<and> APIServerLatency st \<ge> 1000
                 then min 20 (APIServerLatency st / 50) else 0))"

text \<open>Modelled from the spec: network sub-score, \<open>100 * true checks / 4\<close>.\<close>

definition networkSubScore :: "NetworkStatus \<Rightarrow> rat" where
  "networkSubScore st =
     100 * of_int (countTrue [CNIHealthy st, DNSResolutionOK st, ServiceEndpointsHealthy st,
                              IngressHealthy st]) / 4"

text \<open>
  Modelled from the spec: resource sub-score, 100 less twice the excess of CPU and of
  memory usage over 80 percent, not below 0.
\<close>

definition resourceSubScore :: "ResourceUsageStatus \<Rightarrow> rat" where
  "resourceSubScore st =
     max 0 (100 - max 0 (ClusterCPUUsage st - 80) * 2 - max 0 (ClusterMemoryUsage st - 80) * 2)"

text \<open>
  Modelled from the spec: the sub-scores of one evaluation. A degraded category (control
  plane, network, resource usage) is recorded as unknown: it has no sub-score.
\<close>

record SubScores =
  sub_Node :: rat
  sub_Pod :: rat
  sub_ControlPlane :: "rat option"
  sub_Network :: "rat option"
  sub_Resource :: "rat option"

definition contribution :: "rat \<Rightarrow> rat option \<Rightarrow> rat" where
  "contribution w s = (case s of None \<Rightarrow> 0 | Some v \<Rightarrow> w * v)"

definition weightOf :: "rat \<Rightarrow> rat option \<Rightarrow> rat" where
  "weightOf w s = (case s of None \<Rightarrow> 0 | Some v \<Rightarrow> w)"

text \<open>
  Modelled from the spec: the composite score, the weighted sum with weights 0.30, 0.25,
  0.25, 0.10 and 0.10, renormalised over the categories that have a sub-score, rounded
  and clamped to 0..100.
\<close>

definition compositeScore :: "SubScores \<Rightarrow> int" where
  "compositeScore s =
     (let total = 30 / 100 * sub_Node s + 25 / 100 * sub_Pod s
                  + contribution (25 / 100) (sub_ControlPlane s)
                  + contribution (10 / 100) (sub_Network s)
                  + contribution (10 / 100) (sub_Resource s);
          weight = 30 / 100 + 25 / 100
                  + weightOf (25 / 100) (sub_ControlPlane s)
                  + weightOf (10 / 100) (sub_Network s)
                  + weightOf (10 / 100) (sub_Resource s)
      in max 0 (min 100 (round (total / weight))))"

text \<open>
  Modelled from the spec: the categories that a run records as unknown (sections 4.1
  and 7), those whose check could not be evaluated.
\<close>

record Degraded =
  deg_ControlPlane :: bool
  deg_Network :: bool
  deg_Resource :: bool

definition knownSubScore :: "bool \<Rightarrow> rat \<Rightarrow> rat option" where
  "knownSubScore degraded v = (if degraded then None else Some v)"

text \<open>
  Modelled from the spec: \<open>calculateHealthScore\<close>, whose body is not in the sources at
  hand. The sub-score of a degraded category is unknown and takes no part.
\<close>

definition calculateHealthScore :: "Degraded \<Rightarrow> ClusterHealth \<Rightarrow> int" where
  "calculateHealthScore d h =
     compositeScore
       \<lparr>sub_Node = nodeSubScore (NodeStatus h), sub_Pod = podSubScore (PodStatus h),
        sub_ControlPlane =
          knownSubScore (deg_ControlPlane d) (controlPlaneSubScore (ControlPlaneStatus h)),
        sub_Network = knownSubScore (deg_Network d) (networkSubScore (NetworkStatus h)),
        sub_Resource = knownSubScore (deg_Resource d) (resourceSubScore (ResourceUsage h))\<rparr>"

subsection \<open>The evaluation of a snapshot\<close>

text \<open>
  Modelled from the spec: the snapshot of one evaluation cycle (section 3). It holds what
  the API server answers and, for the checks whose bodies are not in the sources at hand,
  what the usage metrics, the component statuses and the namespaces of the cluster give:
  an error when they cannot be read, the evaluated status otherwise. The time the
  API-server probe takes is part of the snapshot (\<open>api_ProbeDuration\<close>).
\<close>

record Snapshot =
  snap_Api :: Api
  snap_ResourceUsage :: "error + ResourceUsageStatus"
  snap_ComponentStatuses :: "error + ComponentStatus list"
  snap_NamespaceHealth :: "error + (string \<times> NamespaceHealth) list"

text \<open>
  Modelled from the spec: \<open>checkResourceUsage\<close>, \<open>checkComponentStatuses\<close> and
  \<open>checkNamespaceHealth\<close>, whose bodies are not in the sources at hand. Each is computed
  from the snapshot with no dependency on another check; when it fails, what it was
  handed stays as it was.
\<close>

definition checkResourceUsage ::
  "Snapshot \<Rightarrow> ResourceUsageStatus \<Rightarrow> error option \<times> ResourceUsageStatus" where
  "checkResourceUsage s status =
     (case snap_ResourceUsage s of Inl e \<Rightarrow> (Some e, status) | Inr usage \<Rightarrow> (None, usage))"

definition checkComponentStatuses ::
  "Snapshot \<Rightarrow> ComponentStatus list \<Rightarrow> error option \<times> ComponentStatus list" where
  "checkComponentStatuses s statuses =
     (case snap_ComponentStatuses s of Inl e \<Rightarrow> (Some e, statuses) | Inr cs \<Rightarrow> (None, cs))"

definition checkNamespaceHealth ::
  "Snapshot \<Rightarrow> ClusterHealth \<Rightarrow> error option \<times> ClusterHealth" where
  "checkNamespaceHealth s health =
     (case snap_NamespaceHealth s of
        Inl e \<Rightarrow> (Some e, health)
      | Inr nh \<Rightarrow> (None, health\<lparr>NamespaceHealth := nh\<rparr>))"

text \<open>
  Modelled from the spec: \<open>identifyHealthIssues\<close>, whose body is not in the sources at
  hand: a separate pass over the computed statuses that emits issues. Which issues it
  emits for a health is the parameter \<open>rules\<close>.
\<close>

definition identifyHealthIssues ::
  "(ClusterHealth \<Rightarrow> HealthIssue list) \<Rightarrow> ClusterHealth \<Rightarrow> ClusterHealth" where
  "identifyHealthIssues rules health = health\<lparr>Issues := Issues health @ rules health\<rparr>"

text \<open>
  Modelled from the spec: a category is degraded in the evaluation of a snapshot when its
  check returns an error.
\<close>

definition degradedOf :: "rounding \<Rightarrow> Snapshot \<Rightarrow> Degraded" where
  "degradedOf float64 s =
     \<lparr>deg_ControlPlane =
        (fst (checkControlPlaneHealth float64 (snap_Api s) zeroControlPlaneStatus) \<noteq> None),
      deg_Network =
        (case checkNetworkHealth (snap_Api s) zeroNetworkStatus [] of
           Returned (Some e, st, lg) \<Rightarrow> True
         | _ \<Rightarrow> False),
      deg_Resource = (fst (checkResourceUsage s zeroResourceUsageStatus) \<noteq> None)\<rparr>"

text \<open>
  Modelled from the spec: the functions \<open>GetClusterHealth\<close> calls that are not in the
  sources at hand, as the specification describes them, for one snapshot.
\<close>

definition specified ::
  "rounding \<Rightarrow> (ClusterHealth \<Rightarrow> HealthIssue list) \<Rightarrow> Snapshot \<Rightarrow> Missing" where
  "specified float64 rules s =
     \<lparr>m_checkResourceUsage = checkResourceUsage s,
      m_checkComponentStatuses = checkComponentStatuses s,
      m_checkNamespaceHealth = checkNamespaceHealth s,
      m_identifyHealthIssues = identifyHealthIssues rules,
      m_calculateHealthScore = calculateHealthScore (degradedOf float64 s)\<rparr>"

text \<open>
  Modelled from the spec: \<open>Evaluate\<close> (section 4.1), the \<open>GetClusterHealth\<close> of the source
  on a snapshot, at the clock reading \<open>now\<close>.
\<close>

definition Evaluate ::
  "rounding \<Rightarrow> (ClusterHealth \<Rightarrow> HealthIssue list) \<Rightarrow> Snapshot \<Rightarrow> Time \<Rightarrow> string list \<Rightarrow>
   ((error + ClusterHealth) \<times> string list) exec" where
  "Evaluate float64 rules s now lg =
     GetClusterHealth float64 (specified float64 rules s) (snap_Api s) now lg"

section \<open>Example clusters\<close>

definition exPodWeb :: Pod where
  "exPodWeb =
     \<lparr>pod_Namespace = ''default'', pod_Name = ''web'', pod_CreationTimestamp = 0,
      pod_NodeName = ''node-1'',
      pod_Volumes = [\<lparr>vol_ConfigMap = Some ''app-config'', vol_Projected = None\<rparr>],
      pod_Containers = [\<lparr>ctr_Env = [], ctr_EnvFrom = []\<rparr>],
      pod_InitContainers = [], pod_EphemeralContainers = [], pod_Phase = ''Running'',
      pod_ContainerStatuses =
        [\<lparr>cs_RestartCount = 6, cs_Waiting = Some ''CrashLoopBackOff''\<rparr>,
         \<lparr>cs_RestartCount = 7, cs_Waiting = Some ''CrashLoopBackOff''\<rparr>]\<rparr>"

definition exPodJob :: Pod where
  "exPodJob =
     \<lparr>pod_Namespace = ''default'', pod_Name = ''job-1'', pod_CreationTimestamp = 0,
      pod_NodeName = ''node-1'', pod_Volumes = [], pod_Containers = [],
      pod_InitContainers = [], pod_EphemeralContainers = [],
      pod_Phase = ''Failed'', pod_ContainerStatuses = []\<rparr>"

definition exCmUsed :: ConfigMap where
  "exCmUsed = \<lparr>cm_Namespace = ''default'', cm_Name = ''app-config'', cm_CreationTimestamp = 0\<rparr>"

definition exCmOrphan :: ConfigMap where
  "exCmOrphan = \<lparr>cm_Namespace = ''default'', cm_Name = ''orphan'', cm_CreationTimestamp = 0\<rparr>"

definition exCmOrphan2 :: ConfigMap where
  "exCmOrphan2 = \<lparr>cm_Namespace = ''default'', cm_Name = ''orphan2'', cm_CreationTimestamp = 0\<rparr>"

text \<open>
  A running pod that takes a variable of its init container from the ConfigMap
  \<open>init-config\<close>, the environment of its container from the ConfigMap \<open>api-env\<close>, and
  a projected volume from the ConfigMap \<open>tls-bundle\<close>.
\<close>

definition exPodApi :: Pod where
  "exPodApi =
     \<lparr>pod_Namespace = ''default'', pod_Name = ''api'', pod_CreationTimestamp = 0,
      pod_NodeName = ''node-1'',
      pod_Volumes = [\<lparr>vol_ConfigMap = None, vol_Projected = Some [Some ''tls-bundle'']\<rparr>],
      pod_Containers = [\<lparr>ctr_Env = [], ctr_EnvFrom = [Some ''api-env'']\<rparr>],
      pod_InitContainers =
        [\<lparr>ctr_Env = [\<lparr>env_ValueFrom = Some \<lparr>src_ConfigMapKeyRef = Some ''init-config''\<rparr>\<rparr>],
          ctr_EnvFrom = []\<rparr>],
      pod_EphemeralContainers = [], pod_Phase = ''Running'', pod_ContainerStatuses = []\<rparr>"

definition exCmInit :: ConfigMap where
  "exCmInit = \<lparr>cm_Namespace = ''default'', cm_Name = ''init-config'', cm_CreationTimestamp = 0\<rparr>"

definition exCmEnv :: ConfigMap where
  "exCmEnv = \<lparr>cm_Namespace = ''default'', cm_Name = ''api-env'', cm_CreationTimestamp = 0\<rparr>"

definition exCmTls :: ConfigMap where
  "exCmTls = \<lparr>cm_Namespace = ''default'', cm_Name = ''tls-bundle'', cm_CreationTimestamp = 0\<rparr>"

text \<open>A node that uses nothing of its four cores.\<close>

definition exIdleNode :: NodeUsage where
  "exIdleNode = \<lparr>nu_Name = ''node-1'', nu_AllocatableMilliCPU = 4000, nu_UsedMilliCPU = 0\<rparr>"

definition exCluster :: Cluster where
  "exCluster =
     \<lparr>cl_configMaps = [exCmUsed, exCmOrphan], cl_pods = [exPodWeb, exPodJob],
      cl_nodes = [exIdleNode]\<rparr>"

definition exWorld :: World where
  "exWorld = \<lparr>cluster = exCluster, calls = [], logs = []\<rparr>"

text \<open>The same pods with two ConfigMaps that nothing references.\<close>

definition exWorld2 :: World where
  "exWorld2 =
     \<lparr>cluster = \<lparr>cl_configMaps = [exCmUsed, exCmOrphan, exCmOrphan2],
                  cl_pods = [exPodWeb, exPodJob], cl_nodes = []\<rparr>,
      calls = [], logs = []\<rparr>"

text \<open>The pod \<open>api\<close> and the three ConfigMaps it references.\<close>

definition exWorldRefs :: World where
  "exWorldRefs =
     \<lparr>cluster = \<lparr>cl_configMaps = [exCmInit, exCmEnv, exCmTls], cl_pods = [exPodApi],
                  cl_nodes = []\<rparr>,
      calls = [], logs = []\<rparr>"

text \<open>Eight days after the objects were created.\<close>

definition exNow :: Time where
  "exNow = 8 * 24 * 3600 * 1000000000"

text \<open>Lists succeed; deleting the ConfigMap \<open>orphan\<close> is refused.\<close>

definition exFaults :: Faults where
  "exFaults =
     \<lparr>listConfigMapsErr = None, listPodsErr = None,
      deleteConfigMapErr = (\<lambda>ns n. if n = ''orphan'' then Some ''forbidden'' else None),
      deletePodErr = (\<lambda>ns n. None)\<rparr>"

definition exNode :: Node where
  "exNode =
     \<lparr>node_Name = ''node-1'',
      node_Conditions = [\<lparr>cond_Type = ''Ready'', cond_Status = ''True''\<rparr>],
      node_Allocatable = [(''cpu'', 4000)]\<rparr>"

definition exDepShort :: Deployment where
  "exDepShort = \<lparr>dep_Name = ''traefik'', dep_Replicas = Some 1, dep_ReadyReplicas = 0\<rparr>"

definition exDepUnset :: Deployment where
  "exDepUnset = \<lparr>dep_Name = ''ingress-nginx'', dep_Replicas = None, dep_ReadyReplicas = 0\<rparr>"

text \<open>
  Nodes and pods can be listed; the kube-system pods and the CNI pods cannot. The ingress
  listing is a parameter.
\<close>

definition exApi :: "Deployment list \<Rightarrow> Api" where
  "exApi ds =
     \<lparr>api_Nodes = Inr [exNode], api_Pods = Inr [exPodWeb],
      api_ProbeErr = None, api_ProbeDuration = 12000000,
      api_KubeSystemPods = Inl ''timeout'',
      api_CNIPods = Inl ''timeout'', api_KubeDNSPods = Inr [], api_Services = Inr [],
      api_Endpoints = (\<lambda>ns n. Inl ''not found''),
      api_IngressDeployments = Inr ds, api_NetworkPolicies = Inr []\<rparr>"

text \<open>
  All the numbers of the example (4000, 1000, 4, 1 and 12) are \<open>float64\<close> values, and so
  are their sums and quotients that occur: no operation rounds.
\<close>

definition exFloat64 :: rounding where
  "exFloat64 x = x"

text \<open>The usage metrics and the namespaces cannot be read; no issue rule is given.\<close>

definition exSnapshot :: Snapshot where
  "exSnapshot =
     \<lparr>snap_Api = exApi [], snap_ResourceUsage = Inl ''metrics unavailable'',
      snap_ComponentStatuses = Inr [], snap_NamespaceHealth = Inl ''forbidden''\<rparr>"

definition exRules :: "ClusterHealth \<Rightarrow> HealthIssue list" where
  "exRules h = []"


text \<open>Two \<open>ClusterHealth\<close> values agree on the five category statuses.\<close>

definition sameStatuses :: "ClusterHealth \<Rightarrow> ClusterHealth \<Rightarrow> bool" where
  "sameStatuses h h' \<longleftrightarrow>
     NodeStatus h = NodeStatus h' \<and> PodStatus h = PodStatus h' \<and>
     ControlPlaneStatus h = ControlPlaneStatus h' \<and> NetworkStatus h = NetworkStatus h' \<and>
     ResourceUsage h = ResourceUsage h'"

text \<open>What the checks make of the example cluster.\<close>

definition exPodStatus :: PodHealthStatus where
  "exPodStatus =
     \<lparr>TotalPods = 1, RunningPods = 1, PendingPods = 0, SucceededPods = 0, FailedPods = 0,
      UnknownPods = 0, RestartingPods = 2, PodsPerNode = [(''node-1'', 1)],
      CrashLoopingPods = [''default/web'', ''default/web'']\<rparr>"

definition exHealth :: "Time \<Rightarrow> ClusterHealth" where
  "exHealth t =
     \<lparr>Timestamp = t,
      NodeStatus =
        \<lparr>TotalNodes = 1, ReadyNodes = 1, MemoryPressureNodes = 0, DiskPressureNodes = 0,
         PIDPressureNodes = 0, NetworkUnavailableNodes = 0,
         NodeConditions = [(''node-1'', [''Ready''])], AverageLoad = 4\<rparr>,
      PodStatus = exPodStatus,
      ControlPlaneStatus =
        \<lparr>APIServerHealthy = True, ControllerHealthy = False, SchedulerHealthy = False,
         EtcdHealthy = False, CoreDNSHealthy = False, OverallHealthy = False,
         APIServerLatency = 12\<rparr>,
      NetworkStatus =
        \<lparr>CNIHealthy = False, DNSResolutionOK = True, ServiceEndpointsHealthy = True,
         IngressHealthy = True, NetworkPoliciesCount = 0\<rparr>,
      ResourceUsage = zeroResourceUsageStatus,
      ComponentStatuses = [], NamespaceHealth = [], HealthScore = 95, Issues = []\<rparr>"

definition exLog :: "string list" where
  "exLog =
     [''Control plane health check failed: failed to list kube-system pods: timeout'',
      ''Failed to check CNI pods: timeout'',
      ''Resource usage check failed: metrics unavailable'',
      ''Namespace health check failed: forbidden'']"

section \<open>Cleanup and optimization: proofs\<close>

lemma key_of_inj:
  "validNamespace ns1 \<Longrightarrow> validNamespace ns2 \<Longrightarrow> key_of ns1 n1 = key_of ns2 n2
   \<Longrightarrow> ns1 = ns2 \<and> n1 = n2"
proof (induction ns1 arbitrary: ns2)
  case Nil
  then show ?case by (cases ns2) (auto simp: key_of_def validNamespace_def)
next
  case (Cons a ns1)
  then show ?case by (cases ns2) (auto simp: key_of_def validNamespace_def)
qed

lemma lookup_upd: "lookup (m(k \<mapsto> True)) k' \<longleftrightarrow> k' = k \<or> lookup m k'"
  by (simp add: lookup_def)

lemma lookup_markVolumes:
  "lookup (markVolumes ns vs m) k \<longleftrightarrow>
     lookup m k \<or> (\<exists>v \<in> set vs. \<exists>n. vol_ConfigMap v = Some n \<and> k = key_of ns n)"
  by (induction vs arbitrary: m) (auto simp: lookup_upd split: option.splits)

lemma lookup_markEnv:
  "lookup (markEnv ns es m) k \<longleftrightarrow>
     lookup m k \<or> (\<exists>e \<in> set es. \<exists>n. envConfigMapRef e = Some n \<and> k = key_of ns n)"
  by (induction es arbitrary: m) (auto simp: lookup_upd envConfigMapRef_def split: option.splits)

lemma lookup_markContainers:
  "lookup (markContainers ns cs m) k \<longleftrightarrow>
     lookup m k \<or> (\<exists>c \<in> set cs. \<exists>e \<in> set (ctr_Env c). \<exists>n. envConfigMapRef e = Some n \<and>
                      k = key_of ns n)"
  by (induction cs arbitrary: m) (auto simp: lookup_markEnv)

lemma lookup_markPod:
  "lookup (markContainers (pod_Namespace p) (pod_Containers p)
             (markVolumes (pod_Namespace p) (pod_Volumes p) m)) k \<longleftrightarrow>
     lookup m k \<or> (\<exists>n. readsReference p n \<and> k = key_of (pod_Namespace p) n)"
  unfolding lookup_markContainers lookup_markVolumes readsReference_def
  by blast

lemma lookup_markPods:
  "lookup (markPods ps m) k \<longleftrightarrow>
     lookup m k \<or> (\<exists>p \<in> set ps. \<exists>n. readsReference p n \<and> k = key_of (pod_Namespace p) n)"
  by (induction ps arbitrary: m) (auto simp: lookup_markPod)

lemma lookup_empty: "\<not> lookup Map.empty k"
  by (simp add: lookup_def)

lemma keyInUse_iff:
  assumes cm: "validNamespace (cm_Namespace cm)"
    and pods: "\<forall>p \<in> set pods. validNamespace (pod_Namespace p)"
  shows "keyInUse pods cm \<longleftrightarrow>
         (\<exists>p \<in> set pods. pod_Namespace p = cm_Namespace cm \<and> readsReference p (cm_Name cm))"
proof
  assume "keyInUse pods cm"
  then obtain p n where p: "p \<in> set pods" and r: "readsReference p n"
    and k: "key_of (cm_Namespace cm) (cm_Name cm) = key_of (pod_Namespace p) n"
    unfolding keyInUse_def lookup_markPods using lookup_empty by blast
  from pods p have "validNamespace (pod_Namespace p)" by blast
  from key_of_inj [OF cm this k] have "pod_Namespace p = cm_Namespace cm" "n = cm_Name cm"
    by simp_all
  with p r show "\<exists>p \<in> set pods. pod_Namespace p = cm_Namespace cm \<and> readsReference p (cm_Name cm)"
    by blast
next
  assume "\<exists>p \<in> set pods. pod_Namespace p = cm_Namespace cm \<and> readsReference p (cm_Name cm)"
  then obtain p where "p \<in> set pods" "pod_Namespace p = cm_Namespace cm"
    "readsReference p (cm_Name cm)"
    by blast
  then show "keyInUse pods cm"
    unfolding keyInUse_def lookup_markPods by metis
qed

lemma readsReference_references: "readsReference p n \<Longrightarrow> referencesConfigMap p n"
  by (auto simp: readsReference_def referencesConfigMap_def volumeReferences_def
        containerReferences_def)

lemma unused_is_flagged:
  assumes "validNamespace (cm_Namespace cm)"
    and "\<forall>p \<in> set pods. validNamespace (pod_Namespace p)"
    and "unusedConfigMap pods cm"
  shows "\<not> keyInUse pods cm"
  using assms(3) readsReference_references
  unfolding keyInUse_iff [OF assms(1,2)] unusedConfigMap_def by blast

lemma configMapLoop_recs:
  "fst (configMapLoop f d now inUse cms (recs, w)) =
     recs @ map (configMapRec now)
              (filter (\<lambda>cm. \<not> lookup inUse (key_of (cm_Namespace cm) (cm_Name cm))) cms)"
  by (induction cms arbitrary: recs w) simp_all

lemma podLoop_recs:
  "fst (podLoop f d now ps (recs, w)) =
     recs @ map (podRec now)
              (filter (\<lambda>p. (pod_Phase p = PodFailed \<or> pod_Phase p = PodSucceeded) \<and>
                            time_Since now (pod_CreationTimestamp p) > 7 * 24 * Hour) ps)"
  by (induction ps arbitrary: recs w) simp_all

lemma configMapLoop_dry: "snd (configMapLoop f True now inUse cms (recs, w)) = w"
  by (induction cms arbitrary: recs w) simp_all

lemma podLoop_dry: "snd (podLoop f True now ps (recs, w)) = w"
  by (induction ps arbitrary: recs w) simp_all

lemma calls_deleteConfigMapStep:
  "calls (deleteConfigMapStep f cm w) = calls w @ [DeleteConfigMap (cm_Namespace cm) (cm_Name cm)]"
  by (simp add: deleteConfigMapStep_def ConfigMaps_Delete_def log_Printf_def Let_def
           split: option.splits)

lemma calls_deletePodStep:
  "calls (deletePodStep f p w) = calls w @ [DeletePod (pod_Namespace p) (pod_Name p)]"
  by (simp add: deletePodStep_def Pods_Delete_def log_Printf_def Let_def
           split: option.splits)

lemma configMapLoop_calls:
  "calls (snd (configMapLoop f False now inUse cms (recs, w))) =
     calls w @ map (\<lambda>cm. DeleteConfigMap (cm_Namespace cm) (cm_Name cm))
              (filter (\<lambda>cm. \<not> lookup inUse (key_of (cm_Namespace cm) (cm_Name cm))) cms)"
  by (induction cms arbitrary: recs w) (simp_all add: calls_deleteConfigMapStep)

lemma podLoop_calls:
  "calls (snd (podLoop f False now ps (recs, w))) =
     calls w @ map (\<lambda>p. DeletePod (pod_Namespace p) (pod_Name p))
              (filter (\<lambda>p. (pod_Phase p = PodFailed \<or> pod_Phase p = PodSucceeded) \<and>
                            time_Since now (pod_CreationTimestamp p) > 7 * 24 * Hour) ps)"
  by (induction ps arbitrary: recs w) (simp_all add: calls_deletePodStep)

lemma age_gt_week:
  "time_Since now t > 7 * 24 * Hour \<longleftrightarrow> now - t > 7 * 24 * 3600 * 1000000000"
  by (simp add: time_Since_def time_Sub_def Hour_def Second_def maxDuration_def minDuration_def)


lemma configMapRec_sel:
  "ResourceType (configMapRec now cm) = ''ConfigMap''"
  "Namespace (configMapRec now cm) = cm_Namespace cm"
  "Name (configMapRec now cm) = cm_Name cm"
  by (simp_all add: configMapRec_def)

lemma podRec_sel:
  "ResourceType (podRec now p) = ''Pod''"
  "Namespace (podRec now p) = pod_Namespace p"
  "Name (podRec now p) = pod_Name p"
  by (simp_all add: podRec_def)

lemma pod_part:
  "{(Namespace r, Name r) | r.
      r \<in> set (map (configMapRec now) xs @ map (podRec now) ys) \<and> ResourceType r = ''Pod''} =
   {(pod_Namespace p, pod_Name p) | p. p \<in> set ys}" (is "?L = ?R")
proof -
  have sel: "{r \<in> set (map (configMapRec now) xs @ map (podRec now) ys). ResourceType r = ''Pod''}
        = podRec now ` set ys"
    by (auto simp: configMapRec_sel podRec_sel)
  have "?L = (\<lambda>r. (Namespace r, Name r)) `
               {r \<in> set (map (configMapRec now) xs @ map (podRec now) ys). ResourceType r = ''Pod''}"
    by blast
  also have "\<dots> = (\<lambda>p. (pod_Namespace p, pod_Name p)) ` set ys"
    unfolding sel image_image podRec_sel ..
  also have "\<dots> = ?R" by blast
  finally show ?thesis .
qed

lemma stale_test:
  "((pod_Phase p = PodFailed \<or> pod_Phase p = PodSucceeded) \<and>
    time_Since now (pod_CreationTimestamp p) > 7 * 24 * Hour) = stalePod now p"
  unfolding age_gt_week by (simp add: stalePod_def PodFailed_def PodSucceeded_def)

lemma CleanupUnusedResources_raw:
  assumes "listConfigMapsErr f = None" and "listPodsErr f = None"
  shows "returned (CleanupUnusedResources f d now w) = Inr []"
    and "recommendations (CleanupUnusedResources f d now w) =
           map (configMapRec now)
             (filter (\<lambda>cm. \<not> lookup (markPods (cl_pods (cluster w)) Map.empty)
                                 (key_of (cm_Namespace cm) (cm_Name cm)))
                (cl_configMaps (cluster w))) @
           map (podRec now)
             (filter (\<lambda>p. (pod_Phase p = PodFailed \<or> pod_Phase p = PodSucceeded) \<and>
                            time_Since now (pod_CreationTimestamp p) > 7 * 24 * Hour)
                (cl_pods (cluster w)))"
  using assms
  by (simp_all add: CleanupUnusedResources_def ConfigMaps_List_def Pods_List_def Let_def
        case_prod_beta podLoop_recs [of _ _ _ _ "fst x" "snd x" for x, simplified]
        configMapLoop_recs)

lemma CleanupUnusedResources_dry_world:
  "world (CleanupUnusedResources f True now w) = w"
  by (simp add: CleanupUnusedResources_def Let_def case_prod_beta
        podLoop_dry [of _ _ _ "fst x" "snd x" for x, simplified]
        configMapLoop_dry split: sum.splits)

lemma CleanupUnusedResources_apply_calls_raw:
  assumes "listConfigMapsErr f = None" and "listPodsErr f = None"
  shows "calls (world (CleanupUnusedResources f False now w)) =
           calls w @
           map (\<lambda>cm. DeleteConfigMap (cm_Namespace cm) (cm_Name cm))
             (filter (\<lambda>cm. \<not> lookup (markPods (cl_pods (cluster w)) Map.empty)
                                 (key_of (cm_Namespace cm) (cm_Name cm)))
                (cl_configMaps (cluster w))) @
           map (\<lambda>p. DeletePod (pod_Namespace p) (pod_Name p))
             (filter (\<lambda>p. (pod_Phase p = PodFailed \<or> pod_Phase p = PodSucceeded) \<and>
                            time_Since now (pod_CreationTimestamp p) > 7 * 24 * Hour)
                (cl_pods (cluster w)))"
  using assms
  by (simp add: CleanupUnusedResources_def ConfigMaps_List_def Pods_List_def Let_def
        case_prod_beta podLoop_calls [of _ _ _ "fst x" "snd x" for x, simplified]
        configMapLoop_calls)

lemma CleanupUnusedResources_ok:
  assumes "listConfigMapsErr f = None" and "listPodsErr f = None"
  shows "returned (CleanupUnusedResources f d now w) = Inr []"
    and "recommendations (CleanupUnusedResources f d now w) =
           map (configMapRec now) (flaggedConfigMaps (cluster w)) @
           map (podRec now) (flaggedPods now (cluster w))"
  using CleanupUnusedResources_raw [OF assms, of d now w]
  by (simp_all only: stale_test flaggedConfigMaps_def flaggedPods_def keyInUse_def)

lemma CleanupUnusedResources_apply_calls:
  assumes "listConfigMapsErr f = None" and "listPodsErr f = None"
  shows "calls (world (CleanupUnusedResources f False now w)) =
           calls w @
           map (\<lambda>cm. DeleteConfigMap (cm_Namespace cm) (cm_Name cm))
             (flaggedConfigMaps (cluster w)) @
           map (\<lambda>p. DeletePod (pod_Namespace p) (pod_Name p)) (flaggedPods now (cluster w))"
  using CleanupUnusedResources_apply_calls_raw [OF assms, of now w]
  by (simp only: stale_test flaggedConfigMaps_def flaggedPods_def keyInUse_def)

text \<open>
  Claim C7. In apply mode (\<open>dryRun\<close> false), whichever deletions the API server refuses,
  \<open>CleanupUnusedResources\<close> returns without error and has issued one delete call for
  each flagged resource of the cluster it listed, ConfigMaps first and pods after, in the
  order of the lists: a failed deletion aborts nothing. The recommendations it computes
  are for the same resources.
\<close>

theorem apply_mode_attempts_every_flagged_deletion:
  assumes "listConfigMapsErr f = None" and "listPodsErr f = None"
  shows "returned (CleanupUnusedResources f False now w) = Inr [] \<and>
         calls (world (CleanupUnusedResources f False now w)) =
           calls w @
           map (\<lambda>cm. DeleteConfigMap (cm_Namespace cm) (cm_Name cm))
             (flaggedConfigMaps (cluster w)) @
           map (\<lambda>p. DeletePod (pod_Namespace p) (pod_Name p)) (flaggedPods now (cluster w)) \<and>
         recommendations (CleanupUnusedResources f False now w) =
           map (configMapRec now) (flaggedConfigMaps (cluster w)) @
           map (podRec now) (flaggedPods now (cluster w))"
  using CleanupUnusedResources_ok [OF assms, of False now w]
    CleanupUnusedResources_apply_calls [OF assms, of now w]
  by simp

lemma flagged_iff_no_read_reference:
  assumes "validNamespace (cm_Namespace cm)"
    and "\<forall>p \<in> set (cl_pods c). validNamespace (pod_Namespace p)"
  shows "cm \<in> set (flaggedConfigMaps c) \<longleftrightarrow>
         cm \<in> set (cl_configMaps c) \<and>
         \<not> (\<exists>p \<in> set (cl_pods c). pod_Namespace p = cm_Namespace cm \<and>
                                    readsReference p (cm_Name cm))"
  unfolding flaggedConfigMaps_def using keyInUse_iff [OF assms] by auto

text \<open>
  Claim C8. The pods that \<open>CleanupUnusedResources\<close> flags are exactly the pods whose phase
  is Failed or Succeeded and that are older than seven days.
\<close>

theorem stale_pods_exact:
  assumes "listConfigMapsErr f = None" and "listPodsErr f = None"
  shows "{(Namespace r, Name r) | r.
            r \<in> set (recommendations (CleanupUnusedResources f d now w)) \<and>
            ResourceType r = ''Pod''} =
         {(pod_Namespace p, pod_Name p) | p.
            p \<in> set (cl_pods (cluster w)) \<and> stalePod now p}"
  unfolding CleanupUnusedResources_ok [OF assms] pod_part
  by (simp add: flaggedPods_def)

text \<open>
  Claim C4. With \<open>dryRun\<close> true, \<open>CleanupUnusedResources\<close> leaves the world as it found it
  (no delete call, no log line, the cluster unchanged); a second dry run on the world the
  first one left returns the same value and leaves the world unchanged again, and at the
  same clock reading it computes the same recommendations.
\<close>

theorem dry_run_idempotent:
  "world (CleanupUnusedResources f True now w) = w \<and>
   world (CleanupUnusedResources f True now' (world (CleanupUnusedResources f True now w))) = w \<and>
   returned (CleanupUnusedResources f True now' (world (CleanupUnusedResources f True now w))) =
     returned (CleanupUnusedResources f True now w) \<and>
   (now' = now \<longrightarrow>
      recommendations (CleanupUnusedResources f True now' (world (CleanupUnusedResources f True now w))) =
      recommendations (CleanupUnusedResources f True now w))"
  unfolding CleanupUnusedResources_dry_world
  by (simp add: CleanupUnusedResources_def ConfigMaps_List_def Pods_List_def Let_def
        case_prod_beta split: option.splits)


theorem stale_pods_exact_witness:
  "listConfigMapsErr exFaults = None \<and> listPodsErr exFaults = None \<and>
   {(Namespace r, Name r) | r.
      r \<in> set (recommendations (CleanupUnusedResources exFaults True exNow exWorld)) \<and>
      ResourceType r = ''Pod''} =
   {(pod_Namespace p, pod_Name p) | p. p \<in> set (cl_pods (cluster exWorld)) \<and> stalePod exNow p} \<and>
   stalePod exNow exPodJob \<and> \<not> stalePod exNow exPodWeb"
proof -
  have h1: "listConfigMapsErr exFaults = None" and h2: "listPodsErr exFaults = None"
    by (simp_all add: exFaults_def)
  have s1: "stalePod exNow exPodJob"
    by (simp add: stalePod_def exNow_def exPodJob_def)
  have s2: "\<not> stalePod exNow exPodWeb"
    by (simp add: stalePod_def exNow_def exPodWeb_def)
  from stale_pods_exact [OF h1 h2, of True exNow exWorld] h1 h2 s1 s2
  show ?thesis by blast
qed

lemma ex_flagged:
  "flaggedConfigMaps (cluster exWorld) = [exCmOrphan]"
  "flaggedPods exNow (cluster exWorld) = [exPodJob]"
  by (simp_all add: flaggedConfigMaps_def flaggedPods_def keyInUse_def stalePod_def
        exWorld_def exCluster_def exPodWeb_def exPodJob_def exCmUsed_def exCmOrphan_def
        exNow_def lookup_def key_of_def)

lemma ex_recommendations:
  "recommendations (CleanupUnusedResources exFaults d exNow exWorld) =
     [\<lparr>ResourceType = ''ConfigMap'', Namespace = ''default'', Name = ''orphan'',
       Reason = ''Not referenced by any pod'', Age = 691200000000000\<rparr>,
      \<lparr>ResourceType = ''Pod'', Namespace = ''default'', Name = ''job-1'',
       Reason = ''Failed/Completed pod older than 7 days (status: Failed)'',
       Age = 691200000000000\<rparr>]"
proof -
  have h1: "listConfigMapsErr exFaults = None" and h2: "listPodsErr exFaults = None"
    by (simp_all add: exFaults_def)
  show ?thesis
    unfolding CleanupUnusedResources_ok(2) [OF h1 h2] ex_flagged
    by (simp add: exPodJob_def exCmOrphan_def exNow_def configMapRec_def podRec_def
          time_Since_def time_Sub_def maxDuration_def minDuration_def)
qed

lemma ex2_flagged:
  "flaggedConfigMaps (cluster exWorld2) = [exCmOrphan, exCmOrphan2]"
  "flaggedPods exNow (cluster exWorld2) = [exPodJob]"
  by (simp_all add: flaggedConfigMaps_def flaggedPods_def keyInUse_def stalePod_def
        exWorld2_def exPodWeb_def exPodJob_def exCmUsed_def exCmOrphan_def exCmOrphan2_def
        exNow_def lookup_def key_of_def)

lemma ex2_logs:
  "logs (world (CleanupUnusedResources exFaults False exNow exWorld2)) =
     [''Failed to delete configmap default/orphan: forbidden'',
      ''Deleted unused configmap default/orphan2'',
      ''Deleted old pod default/job-1'']"
  by (simp add: CleanupUnusedResources_def ConfigMaps_List_def Pods_List_def Let_def
        exFaults_def exWorld2_def exPodWeb_def exPodJob_def exCmUsed_def exCmOrphan_def
        exCmOrphan2_def exNow_def lookup_def key_of_def deleteConfigMapStep_def
        deletePodStep_def ConfigMaps_Delete_def Pods_Delete_def log_Printf_def
        time_Since_def time_Sub_def maxDuration_def minDuration_def Hour_def Second_def
        PodFailed_def PodSucceeded_def)

theorem apply_mode_attempts_every_flagged_deletion_witness:
  "listConfigMapsErr exFaults = None \<and> listPodsErr exFaults = None \<and>
   deleteConfigMapErr exFaults ''default'' ''orphan'' = Some ''forbidden'' \<and>
   flaggedConfigMaps (cluster exWorld2) = [exCmOrphan, exCmOrphan2] \<and>
   flaggedPods exNow (cluster exWorld2) = [exPodJob] \<and>
   returned (CleanupUnusedResources exFaults False exNow exWorld2) = Inr [] \<and>
   calls (world (CleanupUnusedResources exFaults False exNow exWorld2)) =
     [DeleteConfigMap ''default'' ''orphan'', DeleteConfigMap ''default'' ''orphan2'',
      DeletePod ''default'' ''job-1''] \<and>
   logs (world (CleanupUnusedResources exFaults False exNow exWorld2)) =
     [''Failed to delete configmap default/orphan: forbidden'',
      ''Deleted unused configmap default/orphan2'',
      ''Deleted old pod default/job-1'']"
proof -
  have h1: "listConfigMapsErr exFaults = None" and h2: "listPodsErr exFaults = None"
    by (simp_all add: exFaults_def)
  have h3: "deleteConfigMapErr exFaults ''default'' ''orphan'' = Some ''forbidden''"
    by (simp add: exFaults_def)
  have c: "calls exWorld2 = []" by (simp add: exWorld2_def)
  have n: "cm_Namespace exCmOrphan = ''default''" "cm_Name exCmOrphan = ''orphan''"
    "cm_Namespace exCmOrphan2 = ''default''" "cm_Name exCmOrphan2 = ''orphan2''"
    "pod_Namespace exPodJob = ''default''" "pod_Name exPodJob = ''job-1''"
    by (simp_all add: exCmOrphan_def exCmOrphan2_def exPodJob_def)
  from apply_mode_attempts_every_flagged_deletion [OF h1 h2, of exNow exWorld2] h1 h2 h3
    ex2_flagged ex2_logs
  show ?thesis
    unfolding ex2_flagged c by (simp add: n)
qed

theorem dry_run_idempotent_witness:
  "world (CleanupUnusedResources exFaults True exNow exWorld) = exWorld \<and>
   returned (CleanupUnusedResources exFaults True (exNow + 1)
               (world (CleanupUnusedResources exFaults True exNow exWorld))) =
     returned (CleanupUnusedResources exFaults True exNow exWorld) \<and>
   recommendations (CleanupUnusedResources exFaults True exNow
               (world (CleanupUnusedResources exFaults True exNow exWorld))) =
     recommendations (CleanupUnusedResources exFaults True exNow exWorld)"
  using dry_run_idempotent [of exFaults exNow exWorld "exNow + 1"]
    dry_run_idempotent [of exFaults exNow exWorld exNow]
  by simp

text \<open>
  Claim C1, evaluated on the example cluster: the ConfigMap \<open>orphan\<close> is referenced by no
  pod and the pod \<open>job-1\<close> failed eight days ago, so two recommendations are computed,
  but the value returned is the empty list.
\<close>

theorem cleanup_returns_empty_list:
  "returned (CleanupUnusedResources exFaults True exNow exWorld) = Inr [] \<and>
   recommendations (CleanupUnusedResources exFaults True exNow exWorld) =
     [\<lparr>ResourceType = ''ConfigMap'', Namespace = ''default'', Name = ''orphan'',
       Reason = ''Not referenced by any pod'', Age = 691200000000000\<rparr>,
      \<lparr>ResourceType = ''Pod'', Namespace = ''default'', Name = ''job-1'',
       Reason = ''Failed/Completed pod older than 7 days (status: Failed)'',
       Age = 691200000000000\<rparr>]"
proof -
  have h1: "listConfigMapsErr exFaults = None" and h2: "listPodsErr exFaults = None"
    by (simp_all add: exFaults_def)
  show ?thesis
    using CleanupUnusedResources_ok(1) [OF h1 h2, of True exNow exWorld] ex_recommendations
    by simp
qed

lemma exRefs_flagged:
  "flaggedConfigMaps (cluster exWorldRefs) = [exCmInit, exCmEnv, exCmTls]"
  "flaggedPods exNow (cluster exWorldRefs) = []"
  by (simp_all add: flaggedConfigMaps_def flaggedPods_def keyInUse_def stalePod_def
        exWorldRefs_def exPodApi_def exCmInit_def exCmEnv_def exCmTls_def
        exNow_def lookup_def key_of_def)

text \<open>
  Claim C3, evaluated on a cluster whose only pod \<open>api\<close> takes a variable of its init
  container from the ConfigMap \<open>init-config\<close>, the environment of its container from
  \<open>api-env\<close> (\<open>envFrom\<close>) and a projected volume from \<open>tls-bundle\<close>: all three ConfigMaps
  are referenced by a pod of their namespace, yet all three are flagged with the reason
  \<open>Not referenced by any pod\<close>, and deleted in apply mode.
\<close>

theorem cleanup_flags_referenced_configmaps:
  "cl_pods (cluster exWorldRefs) = [exPodApi] \<and>
   cl_configMaps (cluster exWorldRefs) = [exCmInit, exCmEnv, exCmTls] \<and>
   pod_Namespace exPodApi = ''default'' \<and>
   referencesConfigMap exPodApi ''init-config'' \<and>
   referencesConfigMap exPodApi ''api-env'' \<and>
   referencesConfigMap exPodApi ''tls-bundle'' \<and>
   \<not> unusedConfigMap (cl_pods (cluster exWorldRefs)) exCmInit \<and>
   \<not> unusedConfigMap (cl_pods (cluster exWorldRefs)) exCmEnv \<and>
   \<not> unusedConfigMap (cl_pods (cluster exWorldRefs)) exCmTls \<and>
   recommendations (CleanupUnusedResources exFaults True exNow exWorldRefs) =
     [\<lparr>ResourceType = ''ConfigMap'', Namespace = ''default'', Name = ''init-config'',
       Reason = ''Not referenced by any pod'', Age = 691200000000000\<rparr>,
      \<lparr>ResourceType = ''ConfigMap'', Namespace = ''default'', Name = ''api-env'',
       Reason = ''Not referenced by any pod'', Age = 691200000000000\<rparr>,
      \<lparr>ResourceType = ''ConfigMap'', Namespace = ''default'', Name = ''tls-bundle'',
       Reason = ''Not referenced by any pod'', Age = 691200000000000\<rparr>] \<and>
   calls (world (CleanupUnusedResources exFaults False exNow exWorldRefs)) =
     [DeleteConfigMap ''default'' ''init-config'', DeleteConfigMap ''default'' ''api-env'',
      DeleteConfigMap ''default'' ''tls-bundle''] \<and>
   cl_configMaps (cluster (world (CleanupUnusedResources exFaults False exNow exWorldRefs))) = []"
proof -
  have h1: "listConfigMapsErr exFaults = None" and h2: "listPodsErr exFaults = None"
    by (simp_all add: exFaults_def)
  have l: "cl_pods (cluster exWorldRefs) = [exPodApi]"
    "cl_configMaps (cluster exWorldRefs) = [exCmInit, exCmEnv, exCmTls]"
    "pod_Namespace exPodApi = ''default''"
    by (simp_all add: exWorldRefs_def exPodApi_def)
  have r: "referencesConfigMap exPodApi ''init-config''"
    "referencesConfigMap exPodApi ''api-env''"
    "referencesConfigMap exPodApi ''tls-bundle''"
    by (simp_all add: referencesConfigMap_def volumeReferences_def containerReferences_def
          envConfigMapRef_def exPodApi_def)
  have u: "\<not> unusedConfigMap (cl_pods (cluster exWorldRefs)) exCmInit"
    "\<not> unusedConfigMap (cl_pods (cluster exWorldRefs)) exCmEnv"
    "\<not> unusedConfigMap (cl_pods (cluster exWorldRefs)) exCmTls"
    unfolding l unusedConfigMap_def using r
    by (simp_all add: exCmInit_def exCmEnv_def exCmTls_def l)
  have recs: "recommendations (CleanupUnusedResources exFaults True exNow exWorldRefs) =
     [\<lparr>ResourceType = ''ConfigMap'', Namespace = ''default'', Name = ''init-config'',
       Reason = ''Not referenced by any pod'', Age = 691200000000000\<rparr>,
      \<lparr>ResourceType = ''ConfigMap'', Namespace = ''default'', Name = ''api-env'',
       Reason = ''Not referenced by any pod'', Age = 691200000000000\<rparr>,
      \<lparr>ResourceType = ''ConfigMap'', Namespace = ''default'', Name = ''tls-bundle'',
       Reason = ''Not referenced by any pod'', Age = 691200000000000\<rparr>]"
    unfolding CleanupUnusedResources_ok(2) [OF h1 h2] exRefs_flagged
    by (simp add: exCmInit_def exCmEnv_def exCmTls_def exNow_def configMapRec_def
          time_Since_def time_Sub_def maxDuration_def minDuration_def)
  have cs: "calls (world (CleanupUnusedResources exFaults False exNow exWorldRefs)) =
     [DeleteConfigMap ''default'' ''init-config'', DeleteConfigMap ''default'' ''api-env'',
      DeleteConfigMap ''default'' ''tls-bundle'']"
    unfolding CleanupUnusedResources_apply_calls [OF h1 h2] exRefs_flagged
    by (simp add: exCmInit_def exCmEnv_def exCmTls_def exWorldRefs_def)
  have gone: "cl_configMaps (cluster (world (CleanupUnusedResources exFaults False exNow exWorldRefs))) = []"
    by (simp add: CleanupUnusedResources_def ConfigMaps_List_def Pods_List_def Let_def
        exFaults_def exWorldRefs_def exPodApi_def exCmInit_def exCmEnv_def exCmTls_def
        exNow_def lookup_def key_of_def deleteConfigMapStep_def
        ConfigMaps_Delete_def log_Printf_def PodFailed_def PodSucceeded_def)
  from l r u recs cs gone show ?thesis by simp
qed

text \<open>
  Claim C6 fails on a cluster whose only node uses nothing of its four cores: the report
  has no recommendation.
\<close>

theorem optimization_report_empty_at_idle_node:
  "cl_nodes exCluster = [exIdleNode] \<and> nu_UsedMilliCPU exIdleNode = 0 \<and>
   nu_AllocatableMilliCPU exIdleNode = 4000 \<and>
   GenerateOptimizationReport exCluster = Inr \<lparr>PotentialSavings = 0, Recommendations = []\<rparr>"
  by (simp add: exCluster_def exIdleNode_def GenerateOptimizationReport_def)

text \<open>
  Claim C6, amended. For every cluster, \<open>GenerateOptimizationReport\<close> returns, without
  error, a report with potential savings 0 and no recommendation.
\<close>

theorem optimization_report_is_empty:
  "GenerateOptimizationReport c = Inr \<lparr>PotentialSavings = 0, Recommendations = []\<rparr>"
  by (simp add: GenerateOptimizationReport_def)

section \<open>Cluster health: proofs\<close>

lemma fst_checkNodeHealth:
  "fst (checkNodeHealth fl api st) =
     (case api_Nodes api of Inl e \<Rightarrow> Some (''failed to list nodes: '' @ e) | Inr ns \<Rightarrow> None)"
  by (simp add: checkNodeHealth_def case_prod_beta split: sum.splits)

lemma fst_checkPodHealth:
  "fst (checkPodHealth api st) =
     (case api_Pods api of Inl e \<Rightarrow> Some (''failed to list pods: '' @ e) | Inr ps \<Rightarrow> None)"
  by (simp add: checkPodHealth_def split: sum.splits)

lemma checkNodeHealth_Inl:
  "api_Nodes api = Inl e \<Longrightarrow>
   \<exists>s. checkNodeHealth fl api st = (Some (''failed to list nodes: '' @ e), s)"
  using fst_checkNodeHealth [of fl api st] by (cases "checkNodeHealth fl api st") simp

lemma checkNodeHealth_Inr:
  "api_Nodes api = Inr ns \<Longrightarrow> checkNodeHealth fl api st = (None, snd (checkNodeHealth fl api st))"
  using fst_checkNodeHealth [of fl api st] by (cases "checkNodeHealth fl api st") simp

lemma checkPodHealth_Inl:
  "api_Pods api = Inl e \<Longrightarrow> \<exists>s. checkPodHealth api st = (Some (''failed to list pods: '' @ e), s)"
  using fst_checkPodHealth [of api st] by (cases "checkPodHealth api st") simp

lemma checkPodHealth_Inr:
  "api_Pods api = Inr ps \<Longrightarrow> checkPodHealth api st = (None, snd (checkPodHealth api st))"
  using fst_checkPodHealth [of api st] by (cases "checkPodHealth api st") simp

lemma checkIngress_Panicked:
  "checkIngress api x = Panicked \<longleftrightarrow> ingressPanics api"
  by (cases x) (auto simp: checkIngress_def ingressPanics_def split: sum.splits exec.splits)

lemma checkNetworkHealth_Panicked:
  "checkNetworkHealth api st lg = Panicked \<longleftrightarrow> ingressPanics api"
proof -
  have "checkNetworkHealth api st lg = Panicked \<longleftrightarrow>
        checkIngress api (checkServiceEndpoints api (checkDNS api (checkCNI api (st, lg)))) = Panicked"
    by (simp add: checkNetworkHealth_def case_prod_beta split: exec.splits)
  then show ?thesis by (simp add: checkIngress_Panicked)
qed

text \<open>The status the network check computes does not depend on the log it is handed.\<close>

lemma fst_checkCNI: "fst (checkCNI api (st, lg)) = fst (checkCNI api (st, lg'))"
  by (simp add: checkCNI_def split: sum.splits)

lemma fst_checkDNS: "fst (checkDNS api (st, lg)) = fst (checkDNS api (st, lg'))"
  by (simp add: checkDNS_def split: sum.splits)

lemma fst_checkServiceEndpoints:
  "fst (checkServiceEndpoints api (st, lg)) = fst (checkServiceEndpoints api (st, lg'))"
  by (simp add: checkServiceEndpoints_def split: sum.splits)

lemma fst_countNetworkPolicies:
  "fst (countNetworkPolicies api (st, lg)) = fst (countNetworkPolicies api (st, lg'))"
  by (simp add: countNetworkPolicies_def split: sum.splits)

lemma checkIngress_status:
  "checkIngress api (st, lg) = Returned (st', l) \<Longrightarrow>
   \<exists>l'. checkIngress api (st, lg') = Returned (st', l')"
  by (auto simp: checkIngress_def split: sum.splits exec.splits if_splits)

lemma checkNetworkHealth_status:
  assumes "checkNetworkHealth api st lg = Returned (e, st', l)"
  shows "e = None \<and> (\<exists>l'. checkNetworkHealth api st lg' = Returned (None, st', l'))"
proof -
  define a where "a lg = checkServiceEndpoints api (checkDNS api (checkCNI api (st, lg)))" for lg
  have fa: "fst (a lg) = fst (a lg')"
    unfolding a_def
    by (metis fst_checkCNI fst_checkDNS fst_checkServiceEndpoints prod.collapse)
  from assms obtain b where b: "checkIngress api (a lg) = Returned b"
    and r: "e = None" "st' = fst (countNetworkPolicies api b)"
    by (auto simp: checkNetworkHealth_def a_def case_prod_beta split: exec.splits)
  from b have "checkIngress api (fst (a lg), snd (a lg)) = Returned (fst b, snd b)" by simp
  from checkIngress_status [OF this, of "snd (a lg')"] fa
  obtain l2 where b': "checkIngress api (a lg') = Returned (fst b, l2)"
    by (metis prod.collapse)
  have "fst (countNetworkPolicies api (fst b, l2)) = fst (countNetworkPolicies api b)"
    using fst_countNetworkPolicies [of api "fst b" l2 "snd b"] by simp
  with r b' show ?thesis
    by (simp add: checkNetworkHealth_def a_def [symmetric] case_prod_beta)
qed

lemma GetClusterHealth_nodes_fail:
  assumes "api_Nodes api = Inl e"
  shows "GetClusterHealth fl m api now lg =
     Returned (Inl (''node health check failed: '' @ ''failed to list nodes: '' @ e), lg)"
proof -
  from checkNodeHealth_Inl [OF assms] obtain s where
    "checkNodeHealth fl api (NodeStatus (newClusterHealth now)) =
       (Some (''failed to list nodes: '' @ e), s)"
    by blast
  then show ?thesis by (simp add: GetClusterHealth_def Let_def)
qed

lemma GetClusterHealth_pods_fail:
  assumes "api_Nodes api = Inr ns" and "api_Pods api = Inl e"
  shows "GetClusterHealth fl m api now lg =
     Returned (Inl (''pod health check failed: '' @ ''failed to list pods: '' @ e), lg)"
proof -
  note n = checkNodeHealth_Inr [OF assms(1), of fl "NodeStatus (newClusterHealth now)"]
  from checkPodHealth_Inl [OF assms(2)] obtain s' where
    p: "checkPodHealth api (PodStatus (newClusterHealth now)) =
          (Some (''failed to list pods: '' @ e), s')"
    by blast
  show ?thesis
    unfolding GetClusterHealth_def Let_def by (subst n) (simp add: p)
qed

lemma GetClusterHealth_panics:
  assumes "api_Nodes api = Inr ns" and "api_Pods api = Inr ps" and "ingressPanics api"
  shows "GetClusterHealth fl m api now lg = Panicked"
proof -
  note n = checkNodeHealth_Inr [OF assms(1), of fl "NodeStatus (newClusterHealth now)"]
  note p = checkPodHealth_Inr [OF assms(2), of "PodStatus (newClusterHealth now)"]
  from assms(3) have w: "\<And>st l. checkNetworkHealth api st l = Panicked"
    by (simp add: checkNetworkHealth_Panicked)
  show ?thesis
    unfolding GetClusterHealth_def Let_def
    by (subst n, subst p) (simp add: w case_prod_beta)
qed

text \<open>
  The statuses the four checks of the source give a cluster, and the health they are put
  into before the remaining steps: only its timestamp depends on the clock.
\<close>

lemma GetClusterHealth_ok:
  assumes "api_Nodes api = Inr ns" and "api_Pods api = Inr ps" and "\<not> ingressPanics api"
  shows "\<exists>nw. \<forall>now lg. \<exists>lg0 lg'.
           GetClusterHealth fl m api now lg =
             Returned (Inr (fst (finishClusterHealth m
               ((newClusterHealth now)
                  \<lparr>NodeStatus := snd (checkNodeHealth fl api zeroNodeHealthStatus),
                   PodStatus := snd (checkPodHealth api zeroPodHealthStatus),
                   ControlPlaneStatus :=
                     snd (checkControlPlaneHealth fl api zeroControlPlaneStatus),
                   NetworkStatus := nw\<rparr>) lg0)), lg')"
proof -
  from assms(3) obtain e nw l where
    w0: "checkNetworkHealth api zeroNetworkStatus [] = Returned (e, nw, l)"
    by (cases "checkNetworkHealth api zeroNetworkStatus []")
       (auto simp: checkNetworkHealth_Panicked)
  have "\<exists>lg0 lg'.
           GetClusterHealth fl m api now lg =
             Returned (Inr (fst (finishClusterHealth m
               ((newClusterHealth now)
                  \<lparr>NodeStatus := snd (checkNodeHealth fl api zeroNodeHealthStatus),
                   PodStatus := snd (checkPodHealth api zeroPodHealthStatus),
                   ControlPlaneStatus :=
                     snd (checkControlPlaneHealth fl api zeroControlPlaneStatus),
                   NetworkStatus := nw\<rparr>) lg0)), lg')" for now lg
  proof -
    have z: "NodeStatus (newClusterHealth now) = zeroNodeHealthStatus"
      "PodStatus (newClusterHealth now) = zeroPodHealthStatus"
      "ControlPlaneStatus (newClusterHealth now) = zeroControlPlaneStatus"
      "NetworkStatus (newClusterHealth now) = zeroNetworkStatus"
      by (simp_all add: newClusterHealth_def)
    note n = checkNodeHealth_Inr [OF assms(1), of fl zeroNodeHealthStatus]
    note p = checkPodHealth_Inr [OF assms(2), of zeroPodHealthStatus]
    obtain err cp where
      c: "checkControlPlaneHealth fl api zeroControlPlaneStatus = (err, cp)"
      by (cases "checkControlPlaneHealth fl api zeroControlPlaneStatus")
    from checkNetworkHealth_status [OF w0,
        of "logIfErr ''Control plane health check failed: '' err lg"]
    obtain lg1 where
      w: "checkNetworkHealth api zeroNetworkStatus
            (logIfErr ''Control plane health check failed: '' err lg) = Returned (None, nw, lg1)"
      by blast
    show ?thesis
      unfolding GetClusterHealth_def Let_def z
      by (subst n, subst p) (simp add: c w case_prod_beta, blast)
  qed
  then show ?thesis by blast
qed

lemma HealthScore_finish:
  "HealthScore (fst (finishClusterHealth m h lg)) =
     m_calculateHealthScore m
       (m_identifyHealthIssues m
          (snd (m_checkNamespaceHealth m
             (h\<lparr>ResourceUsage := snd (m_checkResourceUsage m (ResourceUsage h)),
                ComponentStatuses := snd (m_checkComponentStatuses m (ComponentStatuses h))\<rparr>))))"
  by (simp add: finishClusterHealth_def case_prod_beta Let_def)

lemma calculateHealthScore_range:
  "0 \<le> calculateHealthScore d h \<and> calculateHealthScore d h \<le> 100"
  by (simp add: calculateHealthScore_def compositeScore_def Let_def)

lemma calculateHealthScore_statuses:
  "sameStatuses h h' \<Longrightarrow> calculateHealthScore d h = calculateHealthScore d h'"
  by (simp add: sameStatuses_def calculateHealthScore_def)

text \<open>
  With the missing functions as the specification describes them, the score of an
  evaluation is the specified score of the statuses of the source's checks and of the
  resource usage of the snapshot.
\<close>

lemma HealthScore_specified:
  "HealthScore (fst (finishClusterHealth (specified fl rules s) h lg)) =
     calculateHealthScore (degradedOf fl s)
       (h\<lparr>ResourceUsage := snd (checkResourceUsage s (ResourceUsage h))\<rparr>)"
  by (cases "snap_NamespaceHealth s")
     (simp_all add: HealthScore_finish specified_def identifyHealthIssues_def
        checkNamespaceHealth_def calculateHealthScore_def)

lemma ingressLoop_Panicked:
  "ingressLoop ds = Panicked \<longleftrightarrow>
     (\<exists>i<length ds. dep_Replicas (ds ! i) = None \<and>
        (\<forall>j<i. \<exists>r. dep_Replicas (ds ! j) = Some r \<and> r \<le> dep_ReadyReplicas (ds ! j)))"
proof (induction ds)
  case Nil
  then show ?case by simp
next
  case (Cons d ds)
  show ?case
  proof (cases "dep_Replicas d")
    case None
    then show ?thesis by auto
  next
    case (Some r)
    show ?thesis
    proof (cases "dep_ReadyReplicas d < r")
      case True
      with Some show ?thesis
        by (auto simp: Ex_less_Suc2 All_less_Suc2)
    next
      case False
      with Some Cons.IH show ?thesis
        by (simp add: Ex_less_Suc2 All_less_Suc2)
    qed
  qed
qed



lemma ex_checkPodHealth:
  "checkPodHealth (exApi ds) zeroPodHealthStatus = (None, exPodStatus)"
  by (simp add: checkPodHealth_def exApi_def exPodWeb_def zeroPodHealthStatus_def exPodStatus_def
        countPodOnNode_def countPhase_def PodRunning_def Let_def)

lemma ex_checkNodeHealth:
  "checkNodeHealth exFloat64 (exApi ds) zeroNodeHealthStatus = (None, NodeStatus (exHealth t))"
  by (simp add: checkNodeHealth_def exApi_def exNode_def zeroNodeHealthStatus_def exHealth_def
        ConditionTrue_def NodeReady_def exFloat64_def)

lemma ex_checkControlPlaneHealth:
  "checkControlPlaneHealth exFloat64 (exApi ds) zeroControlPlaneStatus =
     (Some ''failed to list kube-system pods: timeout'', ControlPlaneStatus (exHealth t))"
  by (simp add: checkControlPlaneHealth_def exApi_def zeroControlPlaneStatus_def exHealth_def
        Milliseconds_def Second_def Let_def exFloat64_def)

lemma ex_checkNetworkHealth:
  "checkNetworkHealth (exApi []) zeroNetworkStatus lg =
     Returned (None, NetworkStatus (exHealth t), lg @ [''Failed to check CNI pods: timeout''])"
  by (simp add: checkNetworkHealth_def checkIngress_def checkCNI_def checkDNS_def
        checkServiceEndpoints_def countNetworkPolicies_def exApi_def zeroNetworkStatus_def
        exHealth_def)

lemma ex_degraded:
  "degradedOf exFloat64 exSnapshot =
     \<lparr>deg_ControlPlane = True, deg_Network = False, deg_Resource = True\<rparr>"
  by (simp add: degradedOf_def exSnapshot_def ex_checkControlPlaneHealth [of _ 0]
        ex_checkNetworkHealth [of _ 0] checkResourceUsage_def)

lemma ex_round: "round (1230 / 13 :: rat) = 95"
  by (rule round_unique) simp_all

lemma ex_score:
  "calculateHealthScore (degradedOf exFloat64 exSnapshot) ((exHealth t)\<lparr>HealthScore := x\<rparr>) = 95"
  unfolding ex_degraded
  by (simp add: calculateHealthScore_def compositeScore_def nodeSubScore_def podSubScore_def
        networkSubScore_def knownSubScore_def exHealth_def
        exPodStatus_def pressureNodeCount_def hasPressure_def
        countTrue_def contribution_def weightOf_def Let_def
        NodeMemoryPressure_def NodeDiskPressure_def NodePIDPressure_def ex_round)

lemma ex_run:
  "Evaluate exFloat64 exRules exSnapshot t lg = Returned (Inr (exHealth t), lg @ exLog)"
proof -
  have n: "checkNodeHealth exFloat64 (exApi []) (NodeStatus (newClusterHealth t)) =
             (None, NodeStatus (exHealth t))"
    using ex_checkNodeHealth [of "[]" t] by (simp add: newClusterHealth_def)
  have p: "checkPodHealth (exApi []) (PodStatus (newClusterHealth t)) = (None, exPodStatus)"
    using ex_checkPodHealth [of "[]"] by (simp add: newClusterHealth_def)
  have c: "checkControlPlaneHealth exFloat64 (exApi []) (ControlPlaneStatus (newClusterHealth t)) =
     (Some ''failed to list kube-system pods: timeout'', ControlPlaneStatus (exHealth t))"
    using ex_checkControlPlaneHealth [of "[]" t] by (simp add: newClusterHealth_def)
  have w: "\<And>lg. checkNetworkHealth (exApi []) (NetworkStatus (newClusterHealth t)) lg =
     Returned (None, NetworkStatus (exHealth t), lg @ [''Failed to check CNI pods: timeout''])"
    using ex_checkNetworkHealth [of _ t] by (simp add: newClusterHealth_def)
  have r: "(newClusterHealth t)\<lparr>NodeStatus := NodeStatus (exHealth t), PodStatus := exPodStatus,
              ControlPlaneStatus := ControlPlaneStatus (exHealth t),
              NetworkStatus := NetworkStatus (exHealth t)\<rparr> = (exHealth t)\<lparr>HealthScore := 0\<rparr>"
    by (simp add: newClusterHealth_def exHealth_def)
  define h0 where "h0 = (exHealth t)\<lparr>HealthScore := 0\<rparr>"
  have ru: "\<And>st. checkResourceUsage exSnapshot st = (Some ''metrics unavailable'', st)"
    by (simp add: checkResourceUsage_def exSnapshot_def)
  have cs: "\<And>st. checkComponentStatuses exSnapshot st = (None, [])"
    by (simp add: checkComponentStatuses_def exSnapshot_def)
  have nh: "\<And>h. checkNamespaceHealth exSnapshot h = (Some ''forbidden'', h)"
    by (simp add: checkNamespaceHealth_def exSnapshot_def)
  have ih: "\<And>h. identifyHealthIssues exRules h = h"
    by (simp add: identifyHealthIssues_def exRules_def)
  have h4: "identifyHealthIssues exRules
              (snd (checkNamespaceHealth exSnapshot
                 (h0\<lparr>ResourceUsage := snd (checkResourceUsage exSnapshot (ResourceUsage h0)),
                     ComponentStatuses :=
                       snd (checkComponentStatuses exSnapshot (ComponentStatuses h0))\<rparr>))) = h0"
    by (simp add: ru cs nh ih) (simp add: h0_def exHealth_def)
  have sc: "calculateHealthScore (degradedOf exFloat64 exSnapshot) h0 = 95"
    unfolding h0_def by (rule ex_score)
  have fin: "h0\<lparr>HealthScore := 95\<rparr> = exHealth t"
    by (simp add: h0_def exHealth_def)
  have errs: "\<And>st. fst (checkResourceUsage exSnapshot st) = Some ''metrics unavailable''"
    "\<And>st. fst (checkComponentStatuses exSnapshot st) = None"
    "\<And>h. fst (checkNamespaceHealth exSnapshot h) = Some ''forbidden''"
    by (simp_all add: ru cs nh)
  have "\<And>lg. finishClusterHealth (specified exFloat64 exRules exSnapshot) h0 lg =
             (exHealth t, lg @ [''Resource usage check failed: metrics unavailable'',
                                ''Namespace health check failed: forbidden''])"
    by (simp add: finishClusterHealth_def specified_def case_prod_beta Let_def h4 sc fin
          errs logIfErr_def)
  then have f: "\<And>lg. finishClusterHealth (specified exFloat64 exRules exSnapshot)
                  ((exHealth t)\<lparr>HealthScore := 0\<rparr>) lg =
             (exHealth t, lg @ [''Resource usage check failed: metrics unavailable'',
                                ''Namespace health check failed: forbidden''])"
    unfolding h0_def .
  have a: "snap_Api exSnapshot = exApi []" by (simp add: exSnapshot_def)
  show ?thesis
    unfolding Evaluate_def GetClusterHealth_def Let_def a n p c w
    by (simp add: logIfErr_def exLog_def r f)
qed

text \<open>
  Claim C10, amended. \<open>checkNetworkHealth\<close> panics exactly when the listing of the
  ingress-controller deployments succeeds and some listed deployment has \<open>Replicas\<close> unset
  while every deployment listed before it has \<open>Replicas\<close> set and at least that many ready
  replicas. On every other input it returns.
\<close>

theorem network_check_panics_iff:
  "checkNetworkHealth api st lg = Panicked \<longleftrightarrow>
     (\<exists>ds. api_IngressDeployments api = Inr ds \<and>
        (\<exists>i<length ds. dep_Replicas (ds ! i) = None \<and>
           (\<forall>j<i. \<exists>r. dep_Replicas (ds ! j) = Some r \<and> r \<le> dep_ReadyReplicas (ds ! j))))"
  unfolding checkNetworkHealth_Panicked ingressPanics_def
  by (cases "api_IngressDeployments api") (simp_all add: ingressLoop_Panicked)

theorem network_check_panics_iff_witness:
  "api_IngressDeployments (exApi [exDepUnset]) = Inr [exDepUnset] \<and>
   dep_Replicas exDepUnset = None \<and>
   checkNetworkHealth (exApi [exDepUnset]) zeroNetworkStatus [] = Panicked"
proof -
  have a: "api_IngressDeployments (exApi [exDepUnset]) = Inr [exDepUnset]"
    by (simp add: exApi_def)
  have b: "dep_Replicas exDepUnset = None" by (simp add: exDepUnset_def)
  from network_check_panics_iff [of "exApi [exDepUnset]" zeroNetworkStatus "[]"] a b
  show ?thesis by simp
qed

text \<open>
  Claim C10 fails where a deployment with too few ready replicas is listed before the one
  with \<open>Replicas\<close> unset: the loop leaves at the first, the second is never dereferenced,
  and the check returns.
\<close>

theorem network_check_survives_later_unset_replicas:
  "api_IngressDeployments (exApi [exDepShort, exDepUnset]) = Inr [exDepShort, exDepUnset] \<and>
   dep_Replicas exDepUnset = None \<and>
   checkNetworkHealth (exApi [exDepShort, exDepUnset]) zeroNetworkStatus [] =
     Returned (None,
       \<lparr>CNIHealthy = False, DNSResolutionOK = True, ServiceEndpointsHealthy = True,
        IngressHealthy = False, NetworkPoliciesCount = 0\<rparr>,
       [''Failed to check CNI pods: timeout''])"
  by (simp add: checkNetworkHealth_def checkIngress_def checkCNI_def checkDNS_def
        checkServiceEndpoints_def countNetworkPolicies_def exApi_def zeroNetworkStatus_def
        exDepShort_def exDepUnset_def)

text \<open>
  Claim C5, evaluated on a cluster with the single pod \<open>default/web\<close>, which has two
  containers, both restarted more than five times and both waiting in CrashLoopBackOff:
  the restarting-pod count is 2 and the pod is listed twice as crash-looping.
\<close>

theorem pod_check_counts_containers:
  "api_Pods (exApi []) = Inr [exPodWeb] \<and>
   checkPodHealth (exApi []) zeroPodHealthStatus = (None, exPodStatus) \<and>
   TotalPods exPodStatus = 1 \<and> RestartingPods exPodStatus = 2 \<and>
   CrashLoopingPods exPodStatus = [''default/web'', ''default/web'']"
  by (simp add: ex_checkPodHealth) (simp add: exApi_def exPodStatus_def)




text \<open>
  Claim C9. With the functions missing from the source as the specification describes
  them, the \<open>HealthScore\<close> of every successful evaluation of a snapshot lies between 0
  and 100, and an evaluation of the same snapshot at any other clock reading, with any
  other log so far, succeeds as well and gives the same score.
\<close>

theorem health_score_bounded_and_deterministic:
  assumes run: "Evaluate fl rules s now lg = Returned (Inr h, lg1)"
  shows "0 \<le> HealthScore h \<and> HealthScore h \<le> 100 \<and>
         (\<exists>h' lg2. Evaluate fl rules s now' lg' = Returned (Inr h', lg2) \<and>
                   HealthScore h' = HealthScore h)"
proof -
  let ?m = "specified fl rules s" and ?api = "snap_Api s"
  from run have run': "GetClusterHealth fl ?m ?api now lg = Returned (Inr h, lg1)"
    by (simp add: Evaluate_def)
  obtain ns where nodes: "api_Nodes ?api = Inr ns"
    using run' GetClusterHealth_nodes_fail [of ?api _ fl ?m now lg]
    by (cases "api_Nodes ?api") auto
  obtain ps where pods: "api_Pods ?api = Inr ps"
    using run' GetClusterHealth_pods_fail [OF nodes, of _ fl ?m now lg]
    by (cases "api_Pods ?api") auto
  have np: "\<not> ingressPanics ?api"
    using run' GetClusterHealth_panics [OF nodes pods, of fl ?m now lg] by auto
  from GetClusterHealth_ok [OF nodes pods np, of fl ?m] obtain nw where
    form: "\<And>now lg. \<exists>lg0 lg'.
           GetClusterHealth fl ?m ?api now lg =
             Returned (Inr (fst (finishClusterHealth ?m
               ((newClusterHealth now)
                  \<lparr>NodeStatus := snd (checkNodeHealth fl ?api zeroNodeHealthStatus),
                   PodStatus := snd (checkPodHealth ?api zeroPodHealthStatus),
                   ControlPlaneStatus :=
                     snd (checkControlPlaneHealth fl ?api zeroControlPlaneStatus),
                   NetworkStatus := nw\<rparr>) lg0)), lg')"
    by blast
  define H where "H t = (newClusterHealth t)
                  \<lparr>NodeStatus := snd (checkNodeHealth fl ?api zeroNodeHealthStatus),
                   PodStatus := snd (checkPodHealth ?api zeroPodHealthStatus),
                   ControlPlaneStatus :=
                     snd (checkControlPlaneHealth fl ?api zeroControlPlaneStatus),
                   NetworkStatus := nw\<rparr>" for t
  have score: "HealthScore (fst (finishClusterHealth ?m (H t) l)) =
                 calculateHealthScore (degradedOf fl s)
                   ((H 0)\<lparr>ResourceUsage := snd (checkResourceUsage s zeroResourceUsageStatus)\<rparr>)"
    for t l
    unfolding HealthScore_specified
    by (rule calculateHealthScore_statuses)
       (simp add: sameStatuses_def H_def newClusterHealth_def)
  from form [of now lg] run' obtain lg0 where
    h: "h = fst (finishClusterHealth ?m (H now) lg0)"
    unfolding H_def by auto
  from form [of now' lg'] obtain lg0' lg2 where
    run2: "GetClusterHealth fl ?m ?api now' lg' =
             Returned (Inr (fst (finishClusterHealth ?m (H now') lg0')), lg2)"
    unfolding H_def by blast
  have "HealthScore (fst (finishClusterHealth ?m (H now') lg0')) = HealthScore h"
    unfolding h score ..
  with run2 have
    "\<exists>h' lg2. Evaluate fl rules s now' lg' = Returned (Inr h', lg2) \<and>
              HealthScore h' = HealthScore h"
    by (auto simp: Evaluate_def)
  moreover have "0 \<le> HealthScore h \<and> HealthScore h \<le> 100"
    unfolding h score by (rule calculateHealthScore_range)
  ultimately show ?thesis by simp
qed

theorem health_score_bounded_and_deterministic_witness:
  "Evaluate exFloat64 exRules exSnapshot 0 [] = Returned (Inr (exHealth 0), exLog) \<and>
   snap_ResourceUsage exSnapshot = Inl ''metrics unavailable'' \<and>
   api_KubeSystemPods (snap_Api exSnapshot) = Inl ''timeout'' \<and>
   degradedOf exFloat64 exSnapshot =
     \<lparr>deg_ControlPlane = True, deg_Network = False, deg_Resource = True\<rparr> \<and>
   HealthScore (exHealth 0) = 95 \<and>
   Evaluate exFloat64 exRules exSnapshot 5 [''second run''] =
     Returned (Inr (exHealth 5), ''second run'' # exLog) \<and>
   HealthScore (exHealth 5) = 95"
proof -
  have r0: "Evaluate exFloat64 exRules exSnapshot 0 [] = Returned (Inr (exHealth 0), exLog)"
    using ex_run [of 0 "[]"] by simp
  have r5: "Evaluate exFloat64 exRules exSnapshot 5 [''second run''] =
     Returned (Inr (exHealth 5), ''second run'' # exLog)"
    using ex_run [of 5 "[''second run'']"] by simp
  have s: "snap_ResourceUsage exSnapshot = Inl ''metrics unavailable''"
    "api_KubeSystemPods (snap_Api exSnapshot) = Inl ''timeout''"
    by (simp_all add: exSnapshot_def exApi_def)
  from health_score_bounded_and_deterministic [OF r0, of 5 "[''second run'']"]
  have "HealthScore (exHealth 5) = HealthScore (exHealth 0)"
    unfolding r5 by simp
  moreover have "HealthScore (exHealth 0) = 95" by (simp add: exHealth_def)
  ultimately show ?thesis using r0 r5 s ex_degraded by simp
qed

end
